theory Spec2Isabelle
  imports Complex_Main
begin

section \<open>The rate limiter of the edge function (src/chat.js)\<close>

text \<open>
  \<^verbatim>\<open>Date.now()\<close> is an integral number of milliseconds and the counters are small
  integers, so every number the limiter computes is an integer far below \<open>2^53\<close>, where
  JavaScript's doubles are exact. Clock readings and counters are therefore of type
  \<open>int\<close>. The clock reading is a parameter: the model says what the check does for
  every value \<^verbatim>\<open>Date.now()\<close> may return, also one earlier than a stored window start.
\<close>

definition RATE_LIMIT :: int where
  "RATE_LIMIT = 20"

definition RATE_WINDOW :: int where
  "RATE_WINDOW = 60 * 60"

text \<open>One entry of \<^verbatim>\<open>rateLimitMap\<close>: the object \<^verbatim>\<open>{ windowStart, count }\<close>.\<close>

record rate_record =
  windowStart :: int
  count :: int

text \<open>
  The object \<^verbatim>\<open>checkRateLimit\<close> returns. The property \<^verbatim>\<open>resetIn\<close> exists only on the
  denying branch; \<open>None\<close> stands for its absence.
\<close>

record rate_check =
  allowed :: bool
  remaining :: int
  resetIn :: "int option"

type_synonym rate_store = "string \<rightharpoonup> rate_record"

text \<open>
  \<^verbatim>\<open>Math.ceil(a / b)\<close> for an integer \<open>a\<close> and a positive integer \<open>b\<close>, written with the
  floor division of \<open>int\<close>. For the millisecond counts at hand the double \<^verbatim>\<open>a / 1000\<close>
  lies between the same two integers as the exact quotient, so \<^verbatim>\<open>Math.ceil\<close> returns the
  exact ceiling (lemma \<open>ceil_div_real\<close> below).
\<close>

definition ceil_div :: "int \<Rightarrow> int \<Rightarrow> int" where
  "ceil_div a b = - ((- a) div b)"

text \<open>
  \<^verbatim>\<open>checkRateLimit(key)\<close>, with the clock reading and the map passed in and the map
  returned. An entry of the map is an object that only this function creates, one per
  key, so the in-place \<^verbatim>\<open>record.count++\<close> is an update of the entry under \<open>key\<close>.
\<close>

definition checkRateLimit :: "int \<Rightarrow> string \<Rightarrow> rate_store \<Rightarrow> rate_check \<times> rate_store" where
  "checkRateLimit now key rateLimitMap =
     (case rateLimitMap key of
        None \<Rightarrow>
          (\<lparr>allowed = True, remaining = RATE_LIMIT - 1, resetIn = None\<rparr>,
           rateLimitMap(key \<mapsto> \<lparr>windowStart = now, count = 1\<rparr>))
      | Some record \<Rightarrow>
          if now - windowStart record > RATE_WINDOW * 1000 then
            (\<lparr>allowed = True, remaining = RATE_LIMIT - 1, resetIn = None\<rparr>,
             rateLimitMap(key \<mapsto> \<lparr>windowStart = now, count = 1\<rparr>))
          else if count record \<ge> RATE_LIMIT then
            (\<lparr>allowed = False, remaining = 0,
              resetIn = Some (ceil_div (windowStart record + RATE_WINDOW * 1000 - now) 1000)\<rparr>,
             rateLimitMap)
          else
            (\<lparr>allowed = True, remaining = RATE_LIMIT - (count record + 1), resetIn = None\<rparr>,
             rateLimitMap(key \<mapsto> record\<lparr>count := count record + 1\<rparr>)))"

text \<open>
  Successive checks of one key, at the clock readings given, each on the map the
  previous one left.
\<close>

fun checkRateLimit_seq :: "string \<Rightarrow> int list \<Rightarrow> rate_store \<Rightarrow> rate_check list \<times> rate_store" where
  "checkRateLimit_seq key [] m = ([], m)"
| "checkRateLimit_seq key (now # nows) m =
     (case checkRateLimit now key m of
        (r, m') \<Rightarrow> (case checkRateLimit_seq key nows m' of (rs, m'') \<Rightarrow> (r # rs, m'')))"

text \<open>
  The states of \<^verbatim>\<open>rateLimitMap\<close>: empty when the module is loaded, and changed by
  \<^verbatim>\<open>checkRateLimit\<close> alone, for any key at any clock reading.
\<close>

inductive reachable :: "rate_store \<Rightarrow> bool" where
  initial: "reachable Map.empty"
| check: "reachable m \<Longrightarrow> reachable (snd (checkRateLimit now key m))"

section \<open>The rate limiter of the serverless function (src/unnamed/part\_000)\<close>

text \<open>
  The second variant has its own constants (the window is in milliseconds), its record
  has the fields \<^verbatim>\<open>start\<close> and \<^verbatim>\<open>count\<close>, and the check returns a boolean. Its names
  carry the suffix \<open>_sl\<close>.
\<close>

definition RATE_LIMIT_sl :: int where
  "RATE_LIMIT_sl = 100"

definition RATE_WINDOW_sl :: int where
  "RATE_WINDOW_sl = 60 * 60 * 1000"

record record_sl =
  start :: int
  count_sl :: int

type_synonym store_sl = "string \<rightharpoonup> record_sl"

definition checkRateLimit_sl :: "int \<Rightarrow> string \<Rightarrow> store_sl \<Rightarrow> bool \<times> store_sl" where
  "checkRateLimit_sl now ip rateLimitMap =
     (case rateLimitMap ip of
        None \<Rightarrow> (True, rateLimitMap(ip \<mapsto> \<lparr>start = now, count_sl = 1\<rparr>))
      | Some record \<Rightarrow>
          if now - start record > RATE_WINDOW_sl then
            (True, rateLimitMap(ip \<mapsto> \<lparr>start = now, count_sl = 1\<rparr>))
          else if count_sl record \<ge> RATE_LIMIT_sl then (False, rateLimitMap)
          else (True, rateLimitMap(ip \<mapsto> record\<lparr>count_sl := count_sl record + 1\<rparr>)))"

fun checkRateLimit_sl_seq :: "string \<Rightarrow> int list \<Rightarrow> store_sl \<Rightarrow> bool list \<times> store_sl" where
  "checkRateLimit_sl_seq ip [] m = ([], m)"
| "checkRateLimit_sl_seq ip (now # nows) m =
     (case checkRateLimit_sl now ip m of
        (r, m') \<Rightarrow> (case checkRateLimit_sl_seq ip nows m' of (rs, m'') \<Rightarrow> (r # rs, m'')))"

inductive reachable_sl :: "store_sl \<Rightarrow> bool" where
  initial_sl: "reachable_sl Map.empty"
| check_sl: "reachable_sl m \<Longrightarrow> reachable_sl (snd (checkRateLimit_sl now ip m))"

section \<open>JavaScript values and the operators the handlers use\<close>

text \<open>
  A value that \<^verbatim>\<open>JSON.parse\<close> can produce. A finite number is given by its value, a
  real: the handlers only test numbers for zero and write them out again, and a finite
  double that \<^verbatim>\<open>JSON.stringify\<close> writes is read back as the same double. A literal that
  overflows, such as \<^verbatim>\<open>1e400\<close>, parses to \<^verbatim>\<open>Infinity\<close> (\<^verbatim>\<open>-1e400\<close> to \<^verbatim>\<open>-Infinity\<close>); there is
  no \<^verbatim>\<open>NaN\<close>. An object is the list of its properties in their order, each name once,
  read with \<open>map_of\<close>. A JavaScript expression that may also be \<^verbatim>\<open>undefined\<close> has type
  \<open>json option\<close>, with \<open>None\<close> for \<^verbatim>\<open>undefined\<close>. Limits of memory and of the stack are
  not modelled.
\<close>

datatype json =
    JNull
  | JBool bool
  | JNum real
  | JInfinity
  | JMinusInfinity
  | JStr string
  | JArr "json list"
  | JObj "(string \<times> json) list"

text \<open>
  What the handlers can throw: a property read on \<^verbatim>\<open>null\<close> or \<^verbatim>\<open>undefined\<close>, a body
  that is not JSON, a status that \<^verbatim>\<open>new Response\<close> refuses, and whatever \<^verbatim>\<open>fetch\<close>
  rejects with.
\<close>

datatype js_error = TypeError | SyntaxError | RangeError | FetchError string

definition bind_err :: "js_error + 'a \<Rightarrow> ('a \<Rightarrow> js_error + 'b) \<Rightarrow> js_error + 'b" where
  "bind_err x f = (case x of Inl e \<Rightarrow> Inl e | Inr v \<Rightarrow> f v)"

text \<open>
  \<^verbatim>\<open>v.name\<close>, for the property names of the source (\<^verbatim>\<open>messages\<close>, \<^verbatim>\<open>model\<close>,
  \<^verbatim>\<open>max_tokens\<close>, \<^verbatim>\<open>temperature\<close>, \<^verbatim>\<open>error\<close>, \<^verbatim>\<open>message\<close>, \<^verbatim>\<open>choices\<close>, \<^verbatim>\<open>content\<close>), none
  of which a built-in prototype defines: a string, a number, a boolean or an array
  has no such property, and \<^verbatim>\<open>null\<close> throws.
\<close>

definition get_prop :: "json \<Rightarrow> string \<Rightarrow> js_error + json option" where
  "get_prop v name =
     (case v of
        JNull \<Rightarrow> Inl TypeError
      | JObj kvs \<Rightarrow> Inr (map_of kvs name)
      | _ \<Rightarrow> Inr None)"

text \<open>\<^verbatim>\<open>x.name\<close> where \<open>x\<close> may be \<^verbatim>\<open>undefined\<close>.\<close>

definition get_prop_of :: "json option \<Rightarrow> string \<Rightarrow> js_error + json option" where
  "get_prop_of x name = (case x of None \<Rightarrow> Inl TypeError | Some v \<Rightarrow> get_prop v name)"

text \<open>\<^verbatim>\<open>x?.name\<close>: \<^verbatim>\<open>undefined\<close> when \<open>x\<close> is \<^verbatim>\<open>null\<close> or \<^verbatim>\<open>undefined\<close>; it never throws.\<close>

definition get_prop_opt :: "json option \<Rightarrow> string \<Rightarrow> json option" where
  "get_prop_opt x name =
     (case x of
        Some (JObj kvs) \<Rightarrow> map_of kvs name
      | _ \<Rightarrow> None)"

text \<open>
  \<^verbatim>\<open>x[0]\<close>: the first element of an array, the first character of a string, the
  property \<^verbatim>\<open>"0"\<close> of an object.
\<close>

definition get_index0 :: "json option \<Rightarrow> js_error + json option" where
  "get_index0 x =
     (case x of
        None \<Rightarrow> Inl TypeError
      | Some JNull \<Rightarrow> Inl TypeError
      | Some (JArr xs) \<Rightarrow> Inr (case xs of [] \<Rightarrow> None | y # _ \<Rightarrow> Some y)
      | Some (JStr s) \<Rightarrow> Inr (case s of [] \<Rightarrow> None | c # _ \<Rightarrow> Some (JStr [c]))
      | Some (JObj kvs) \<Rightarrow> Inr (map_of kvs ''0'')
      | Some _ \<Rightarrow> Inr None)"

text \<open>
  Truthiness. \<^verbatim>\<open>JSON.parse\<close> produces no \<^verbatim>\<open>NaN\<close>, so a number is falsy when it is zero;
  \<^verbatim>\<open>Infinity\<close> and \<^verbatim>\<open>-Infinity\<close> are truthy.
\<close>

definition truthy :: "json option \<Rightarrow> bool" where
  "truthy x =
     (case x of
        None \<Rightarrow> False
      | Some JNull \<Rightarrow> False
      | Some (JBool b) \<Rightarrow> b
      | Some (JNum n) \<Rightarrow> n \<noteq> 0
      | Some (JStr s) \<Rightarrow> s \<noteq> []
      | Some _ \<Rightarrow> True)"

text \<open>\<^verbatim>\<open>x || d\<close> and \<^verbatim>\<open>x ?? d\<close> for a default \<open>d\<close> that is defined.\<close>

definition or_default :: "json option \<Rightarrow> json \<Rightarrow> json" where
  "or_default x d = (case x of None \<Rightarrow> d | Some v \<Rightarrow> if truthy (Some v) then v else d)"

definition nullish_default :: "json option \<Rightarrow> json \<Rightarrow> json" where
  "nullish_default x d = (case x of None \<Rightarrow> d | Some JNull \<Rightarrow> d | Some v \<Rightarrow> v)"

definition isArray :: "json option \<Rightarrow> bool" where
  "isArray x = (case x of Some (JArr _) \<Rightarrow> True | _ \<Rightarrow> False)"

text \<open>
  \<^verbatim>\<open>JSON.stringify\<close> of a value, as the value that the text written denotes: a number
  that is not finite is written \<^verbatim>\<open>null\<close>, at any depth; everything else is written as it
  is.
\<close>

primrec written :: "json \<Rightarrow> json" where
  "written JNull = JNull"
| "written (JBool b) = JBool b"
| "written (JNum x) = JNum x"
| "written JInfinity = JNull"
| "written JMinusInfinity = JNull"
| "written (JStr s) = JStr s"
| "written (JArr xs) = JArr (map written xs)"
| "written (JObj kvs) = JObj (map (map_prod id written) kvs)"

text \<open>The values that hold no \<^verbatim>\<open>Infinity\<close> or \<^verbatim>\<open>-Infinity\<close>, at any depth.\<close>

fun all_finite :: "json \<Rightarrow> bool" where
  "all_finite JInfinity = False"
| "all_finite JMinusInfinity = False"
| "all_finite (JArr xs) = list_all all_finite xs"
| "all_finite (JObj kvs) = list_all (\<lambda>kv. all_finite (snd kv)) kvs"
| "all_finite _ = True"

text \<open>
  \<^verbatim>\<open>JSON.stringify\<close> of an object literal: a property whose value is \<^verbatim>\<open>undefined\<close> is
  left out, and the others are written as above.
\<close>

fun stringify :: "(string \<times> json option) list \<Rightarrow> (string \<times> json) list" where
  "stringify [] = []"
| "stringify ((k, None) # ps) = stringify ps"
| "stringify ((k, Some v) # ps) = (k, written v) # stringify ps"

text \<open>Decimal notation of an integer, as a template literal and \<^verbatim>\<open>String\<close> write it.\<close>

fun string_of_nat :: "nat \<Rightarrow> string" where
  "string_of_nat n =
     (if n < 10 then [''0123456789'' ! n]
      else string_of_nat (n div 10) @ [''0123456789'' ! (n mod 10)])"

declare string_of_nat.simps [simp del]

definition string_of_int :: "int \<Rightarrow> string" where
  "string_of_int i = (if i < 0 then CHR ''-'' # string_of_nat (nat (- i)) else string_of_nat (nat i))"

text \<open>
  \<^verbatim>\<open>s.trim()\<close> and \<^verbatim>\<open>s.split(",")[0]\<close>. The value of a header is a string of the code
  points 0 to 255, one \<open>char\<close> each. Of these, \<^verbatim>\<open>trim\<close> removes tab, line feed, vertical
  tab, form feed, carriage return, space and the no-break space U+00A0.
\<close>

definition is_space :: "char \<Rightarrow> bool" where
  "is_space c =
     (c \<in> set [CHR 0x09, CHR 0x0A, CHR 0x0B, CHR 0x0C, CHR 0x0D, CHR '' '', CHR 0xA0])"

definition trim :: "string \<Rightarrow> string" where
  "trim s = rev (dropWhile is_space (rev (dropWhile is_space s)))"

definition split_comma_first :: "string \<Rightarrow> string" where
  "split_comma_first s = takeWhile (\<lambda>c. c \<noteq> CHR '','') s"

definition startsWith :: "string \<Rightarrow> string \<Rightarrow> bool" where
  "startsWith s p = (take (length p) s = p)"

section \<open>The handler of the edge function (src/chat.js)\<close>

text \<open>
  What the handler reads of the request: the HTTP verb, the headers (keyed by their
  lower-case names; \<open>None\<close> is the \<^verbatim>\<open>null\<close> of \<^verbatim>\<open>headers.get\<close>) and the result of
  \<^verbatim>\<open>req.json()\<close>, where \<open>None\<close> means that the promise rejects.
\<close>

record request =
  req_method :: string
  req_headers :: "string \<rightharpoonup> string"
  req_json :: "json option"

text \<open>\<^verbatim>\<open>new Response(body, { status, headers })\<close>; the body is the JSON value its text denotes.\<close>

record response =
  status :: int
  headers :: "(string \<times> string) list"
  body :: "json option"

text \<open>The arguments of one \<^verbatim>\<open>fetch\<close> call.\<close>

record upstream_call =
  url :: string
  call_method :: string
  call_headers :: "(string \<times> string) list"
  call_body :: json

text \<open>
  What the handler reads of the upstream's response: \<^verbatim>\<open>ok\<close>, \<^verbatim>\<open>status\<close> and the result of
  \<^verbatim>\<open>json()\<close> (\<open>None\<close>: the promise rejects). \<^verbatim>\<open>fetch\<close> itself resolves or rejects.
\<close>

record upstream_response =
  ok :: bool
  res_status :: int
  res_json :: "json option"

datatype fetch_result = Rejects string | Resolves upstream_response

text \<open>
  The surroundings of one invocation: the value of \<^verbatim>\<open>Date.now()\<close>, the environment
  variable (\<open>None\<close>: not set) and the behaviour of \<^verbatim>\<open>fetch\<close>.
\<close>

record env =
  date_now :: int
  OPENAI_API_KEY :: "string option"
  fetch :: "upstream_call \<Rightarrow> fetch_result"

text \<open>
  What an invocation does: it returns a response or throws, it has made the upstream
  calls listed, and it leaves the rate-limit map \<open>store\<close>.
\<close>

record 'm outcome =
  result :: "js_error + response"
  calls :: "upstream_call list"
  store :: 'm

definition getRateLimitKey :: "request \<Rightarrow> string" where
  "getRateLimitKey req =
     (let forwarded =
            (case req_headers req ''x-forwarded-for'' of
               None \<Rightarrow> None
             | Some v \<Rightarrow> Some (trim (split_comma_first v)))
      in case forwarded of
           Some (c # cs) \<Rightarrow> c # cs
         | _ \<Rightarrow>
           (case req_headers req ''x-real-ip'' of
              Some (c # cs) \<Rightarrow> c # cs
            | _ \<Rightarrow> ''unknown''))"

definition allowedOrigins :: "string list" where
  "allowedOrigins = [''https://www.propertyfinder.ae'', ''chrome-extension://'']"

definition corsHeaders :: "request \<Rightarrow> (string \<times> string) list" where
  "corsHeaders req =
     (let origin = (case req_headers req ''origin'' of None \<Rightarrow> [] | Some v \<Rightarrow> v);
          isAllowed = list_ex (\<lambda>o'. startsWith origin o') allowedOrigins
      in [(''Access-Control-Allow-Origin'',
             if isAllowed then origin else ''https://www.propertyfinder.ae''),
          (''Access-Control-Allow-Methods'', ''POST, OPTIONS''),
          (''Access-Control-Allow-Headers'', ''Content-Type''),
          (''Access-Control-Max-Age'', ''86400'')])"

text \<open>
  The constructor \<^verbatim>\<open>new Response(body, { status, headers })\<close> of the edge runtime: it
  throws a \<^verbatim>\<open>RangeError\<close> for a status outside 200 to 599, and a \<^verbatim>\<open>TypeError\<close> for a body
  that is not \<^verbatim>\<open>null\<close> with one of the statuses that carry no body.
\<close>

definition new_Response :: "json option \<Rightarrow> int \<Rightarrow> (string \<times> string) list \<Rightarrow> js_error + response" where
  "new_Response b st hs =
     (if st < 200 \<or> 599 < st then Inl RangeError
      else if b \<noteq> None \<and> st \<in> set [101, 103, 204, 205, 304] then Inl TypeError
      else Inr \<lparr>status = st, headers = hs, body = b\<rparr>)"

text \<open>
  \<^verbatim>\<open>new Response(JSON.stringify({ ... }), { status, headers })\<close> with one of the statuses
  that the source writes out (405, 429, 400, 500, 502, 200), which the constructor
  accepts, and \<^verbatim>\<open>res.status(...).json({ ... })\<close> of the serverless variant.
\<close>

definition json_response :: "(string \<times> json option) list \<Rightarrow> int \<Rightarrow> (string \<times> string) list \<Rightarrow> response" where
  "json_response props st hs = \<lparr>status = st, headers = hs, body = Some (JObj (stringify props))\<rparr>"

text \<open>\<^verbatim>\<open>`${x}`\<close> and \<^verbatim>\<open>String(x)\<close> of \<^verbatim>\<open>rateCheck.resetIn\<close>.\<close>

definition string_of_resetIn :: "int option \<Rightarrow> string" where
  "string_of_resetIn x = (case x of None \<Rightarrow> ''undefined'' | Some n \<Rightarrow> string_of_int n)"

text \<open>The object literal of lines 117 to 122, the body of the upstream call.\<close>

definition request_body :: "json \<Rightarrow> js_error + json" where
  "request_body b =
     bind_err (get_prop b ''model'') (\<lambda>model.
     bind_err (get_prop b ''messages'') (\<lambda>messages.
     bind_err (get_prop b ''max_tokens'') (\<lambda>max_tokens.
     bind_err (get_prop b ''temperature'') (\<lambda>temperature.
       Inr (JObj (stringify
         [(''model'', Some (or_default model (JStr ''gpt-4o-mini''))),
          (''messages'', messages),
          (''max_tokens'', Some (or_default max_tokens (JNum 1500))),
          (''temperature'', Some (nullish_default temperature (JNum 0.85)))]))))))"

text \<open>The expression \<^verbatim>\<open>data.choices[0].message.content\<close>, read from left to right.\<close>

definition first_content :: "json \<Rightarrow> js_error + json option" where
  "first_content data =
     bind_err (get_prop data ''choices'') (\<lambda>choices.
     bind_err (get_index0 choices) (\<lambda>choice.
     bind_err (get_prop_of choice ''message'') (\<lambda>message.
       get_prop_of message ''content'')))"

text \<open>
  Lines 125 to 143: what the handler makes of the upstream's response. The status of the
  error response is the upstream's, so there the constructor may throw.
\<close>

definition reply :: "(string \<times> string) list \<Rightarrow> rate_check \<Rightarrow> upstream_response \<Rightarrow> js_error + response" where
  "reply cors rateCheck openaiRes =
     (if \<not> ok openaiRes then
        (let err = (case res_json openaiRes of None \<Rightarrow> JObj [] | Some v \<Rightarrow> v) in
         bind_err (get_prop err ''error'') (\<lambda>error.
           new_Response
             (Some (JObj (stringify
               [(''error'', Some (or_default (get_prop_opt error ''message'')
                   (JStr (''OpenAI error: '' @ string_of_int (res_status openaiRes)))))])))
             (res_status openaiRes)
             (cors @ [(''Content-Type'', ''application/json'')])))
      else
        (case res_json openaiRes of
           None \<Rightarrow> Inl SyntaxError
         | Some data \<Rightarrow>
             bind_err (first_content data) (\<lambda>content.
               Inr (json_response
                 [(''content'', content),
                  (''remaining'', Some (JNum (of_int (remaining rateCheck))))]
                 200
                 (cors @ [(''Content-Type'', ''application/json'')])))))"

text \<open>
  The \<^verbatim>\<open>try\<close> block of lines 110 to 144: its value or the error it throws, and the
  upstream calls it has made.
\<close>

definition try_block :: "env \<Rightarrow> (string \<times> string) list \<Rightarrow> rate_check \<Rightarrow> string \<Rightarrow> json \<Rightarrow>
    (js_error + response) \<times> upstream_call list" where
  "try_block e cors rateCheck OPENAI_KEY b =
     (case request_body b of
        Inl err \<Rightarrow> (Inl err, [])
      | Inr payload \<Rightarrow>
          (let call = \<lparr>url = ''https://api.openai.com/v1/chat/completions'',
                       call_method = ''POST'',
                       call_headers = [(''Content-Type'', ''application/json''),
                                       (''Authorization'', ''Bearer '' @ OPENAI_KEY)],
                       call_body = payload\<rparr>
           in case fetch e call of
                Rejects reason \<Rightarrow> (Inl (FetchError reason), [call])
              | Resolves openaiRes \<Rightarrow> (reply cors rateCheck openaiRes, [call])))"

definition handler :: "env \<Rightarrow> request \<Rightarrow> rate_store \<Rightarrow> rate_store outcome" where
  "handler e req rateLimitMap =
     (let cors = corsHeaders req;
          json_headers = cors @ [(''Content-Type'', ''application/json'')]
      in
      if req_method req = ''OPTIONS'' then
        \<lparr>result = Inr \<lparr>status = 204, headers = cors, body = None\<rparr>,
         calls = [], store = rateLimitMap\<rparr>
      else if req_method req \<noteq> ''POST'' then
        \<lparr>result = Inr (json_response [(''error'', Some (JStr ''Method not allowed''))] 405 json_headers),
         calls = [], store = rateLimitMap\<rparr>
      else
        (case checkRateLimit (date_now e) (getRateLimitKey req) rateLimitMap of
           (rateCheck, rateLimitMap') \<Rightarrow>
           if \<not> allowed rateCheck then
             \<lparr>result = Inr (json_response
                 [(''error'', Some (JStr (''Rate limited. Try again in ''
                      @ string_of_resetIn (resetIn rateCheck) @ ''s.''))),
                  (''resetIn'', map_option (\<lambda>n. JNum (of_int n)) (resetIn rateCheck))]
                 429
                 (json_headers @ [(''Retry-After'', string_of_resetIn (resetIn rateCheck))])),
              calls = [], store = rateLimitMap'\<rparr>
           else
             (case req_json req of
                None \<Rightarrow>
                  \<lparr>result = Inr (json_response [(''error'', Some (JStr ''Invalid JSON''))] 400 json_headers),
                   calls = [], store = rateLimitMap'\<rparr>
              | Some b \<Rightarrow>
                  (case get_prop b ''messages'' of
                     Inl err \<Rightarrow> \<lparr>result = Inl err, calls = [], store = rateLimitMap'\<rparr>
                   | Inr messages \<Rightarrow>
                       if \<not> isArray messages then
                         \<lparr>result = Inr (json_response
                             [(''error'', Some (JStr ''messages array required''))] 400 json_headers),
                          calls = [], store = rateLimitMap'\<rparr>
                       else
                         (case OPENAI_API_KEY e of
                            Some (c # cs) \<Rightarrow>
                              (case try_block e cors rateCheck (c # cs) b of
                                 (Inr r, made) \<Rightarrow>
                                   \<lparr>result = Inr r, calls = made, store = rateLimitMap'\<rparr>
                               | (Inl err, made) \<Rightarrow>
                                   \<lparr>result = Inr (json_response
                                       [(''error'', Some (JStr ''Failed to reach AI service''))]
                                       502 json_headers),
                                    calls = made, store = rateLimitMap'\<rparr>)
                          | _ \<Rightarrow>
                              \<lparr>result = Inr (json_response
                                  [(''error'', Some (JStr ''Server misconfigured''))] 500 json_headers),
                               calls = [], store = rateLimitMap'\<rparr>)))))"

section \<open>The handler of the serverless function (src/unnamed/part\_000)\<close>

text \<open>
  Here the platform has parsed the body: \<^verbatim>\<open>req.body\<close> is a JSON value or \<^verbatim>\<open>undefined\<close>,
  and \<^verbatim>\<open>req.headers\<close> is an object keyed by lower-case names. The response is what the
  calls on \<^verbatim>\<open>res\<close> amount to: the status, the three headers set at the start, and the
  body given to \<^verbatim>\<open>json\<close> (none after \<^verbatim>\<open>end()\<close>).
\<close>

record request_sl =
  method_sl :: string
  headers_sl :: "string \<rightharpoonup> string"
  body_sl :: "json option"

definition corsHeaders_sl :: "(string \<times> string) list" where
  "corsHeaders_sl =
     [(''Access-Control-Allow-Origin'', ''*''),
      (''Access-Control-Allow-Methods'', ''POST, OPTIONS''),
      (''Access-Control-Allow-Headers'', ''Content-Type'')]"

definition client_ip :: "request_sl \<Rightarrow> string" where
  "client_ip req =
     trim (split_comma_first
       (case headers_sl req ''x-forwarded-for'' of Some (c # cs) \<Rightarrow> c # cs | _ \<Rightarrow> ''unknown''))"

definition reply_sl :: "upstream_response \<Rightarrow> js_error + response" where
  "reply_sl openaiRes =
     (if \<not> ok openaiRes then
        (let err = (case res_json openaiRes of None \<Rightarrow> JObj [] | Some v \<Rightarrow> v) in
         bind_err (get_prop err ''error'') (\<lambda>error.
           Inr (json_response
             [(''error'', Some (or_default (get_prop_opt error ''message'') (JStr ''OpenAI error'')))]
             (res_status openaiRes) corsHeaders_sl)))
      else
        (case res_json openaiRes of
           None \<Rightarrow> Inl SyntaxError
         | Some data \<Rightarrow>
             bind_err (first_content data) (\<lambda>content.
               Inr (json_response [(''content'', content)] 200 corsHeaders_sl))))"

definition try_block_sl :: "env \<Rightarrow> string \<Rightarrow> json option \<Rightarrow> json option \<Rightarrow> json option \<Rightarrow>
    (js_error + response) \<times> upstream_call list" where
  "try_block_sl e OPENAI_KEY messages max_tokens temperature =
     (let call = \<lparr>url = ''https://api.openai.com/v1/chat/completions'',
                  call_method = ''POST'',
                  call_headers = [(''Content-Type'', ''application/json''),
                                  (''Authorization'', ''Bearer '' @ OPENAI_KEY)],
                  call_body = JObj (stringify
                    [(''model'', Some (JStr ''gpt-4o-mini'')),
                     (''messages'', messages),
                     (''max_tokens'', Some (or_default max_tokens (JNum 2500))),
                     (''temperature'', Some (nullish_default temperature (JNum 0.85)))])\<rparr>
      in case fetch e call of
           Rejects reason \<Rightarrow> (Inl (FetchError reason), [call])
         | Resolves openaiRes \<Rightarrow> (reply_sl openaiRes, [call]))"

definition handler_sl :: "env \<Rightarrow> request_sl \<Rightarrow> store_sl \<Rightarrow> store_sl outcome" where
  "handler_sl e req rateLimitMap =
     (if method_sl req = ''OPTIONS'' then
        \<lparr>result = Inr \<lparr>status = 204, headers = corsHeaders_sl, body = None\<rparr>,
         calls = [], store = rateLimitMap\<rparr>
      else if method_sl req \<noteq> ''POST'' then
        \<lparr>result = Inr (json_response [(''error'', Some (JStr ''Method not allowed''))] 405 corsHeaders_sl),
         calls = [], store = rateLimitMap\<rparr>
      else
        (case checkRateLimit_sl (date_now e) (client_ip req) rateLimitMap of
           (permitted, rateLimitMap') \<Rightarrow>
           if \<not> permitted then
             \<lparr>result = Inr (json_response
                 [(''error'', Some (JStr ''Rate limited. Try again later.''))] 429 corsHeaders_sl),
              calls = [], store = rateLimitMap'\<rparr>
           else
             (let b = or_default (body_sl req) (JObj []) in
              case bind_err (get_prop b ''messages'') (\<lambda>messages.
                   bind_err (get_prop b ''max_tokens'') (\<lambda>max_tokens.
                   bind_err (get_prop b ''temperature'') (\<lambda>temperature.
                     Inr (messages, max_tokens, temperature)))) of
                Inl err \<Rightarrow> \<lparr>result = Inl err, calls = [], store = rateLimitMap'\<rparr>
              | Inr (messages, max_tokens, temperature) \<Rightarrow>
                  if \<not> isArray messages then
                    \<lparr>result = Inr (json_response
                        [(''error'', Some (JStr ''messages array required''))] 400 corsHeaders_sl),
                     calls = [], store = rateLimitMap'\<rparr>
                  else
                    (case OPENAI_API_KEY e of
                       Some (c # cs) \<Rightarrow>
                         (case try_block_sl e (c # cs) messages max_tokens temperature of
                            (Inr r, made) \<Rightarrow>
                              \<lparr>result = Inr r, calls = made, store = rateLimitMap'\<rparr>
                          | (Inl err, made) \<Rightarrow>
                              \<lparr>result = Inr (json_response
                                  [(''error'', Some (JStr ''Failed to reach AI service''))]
                                  502 corsHeaders_sl),
                               calls = made, store = rateLimitMap'\<rparr>)
                     | _ \<Rightarrow>
                         \<lparr>result = Inr (json_response
                             [(''error'', Some (JStr ''Server misconfigured''))] 500 corsHeaders_sl),
                          calls = [], store = rateLimitMap'\<rparr>))))"

section \<open>Facts about the rate limiters\<close>

lemma ceil_div_real: "ceil_div a b = \<lceil>real_of_int a / real_of_int b\<rceil>"
  by (simp add: ceil_div_def ceiling_divide_eq_div)

lemma ceil_div_nonneg: "0 \<le> a \<Longrightarrow> 0 \<le> ceil_div a 1000"
  unfolding ceil_div_def using div_nonpos_pos_le0[of "- a" 1000] by simp

lemma ceil_div_pos: "0 < a \<Longrightarrow> 0 < ceil_div a 1000"
  unfolding ceil_div_def using div_neg_pos_less0[of "- a" 1000] by simp

lemma checkRateLimit_fresh:
  "m key = None \<or> (\<exists>r. m key = Some r \<and> t - windowStart r > RATE_WINDOW * 1000) \<Longrightarrow>
   checkRateLimit t key m =
     (\<lparr>allowed = True, remaining = RATE_LIMIT - 1, resetIn = None\<rparr>,
      m(key \<mapsto> \<lparr>windowStart = t, count = 1\<rparr>))"
  by (auto simp: checkRateLimit_def)

lemma checkRateLimit_denied:
  "m key = Some r \<Longrightarrow> t - windowStart r \<le> RATE_WINDOW * 1000 \<Longrightarrow> RATE_LIMIT \<le> count r \<Longrightarrow>
   checkRateLimit t key m =
     (\<lparr>allowed = False, remaining = 0,
       resetIn = Some (ceil_div (windowStart r + RATE_WINDOW * 1000 - t) 1000)\<rparr>, m)"
  by (simp add: checkRateLimit_def)

lemma checkRateLimit_under:
  "m key = Some r \<Longrightarrow> t - windowStart r \<le> RATE_WINDOW * 1000 \<Longrightarrow> count r < RATE_LIMIT \<Longrightarrow>
   checkRateLimit t key m =
     (\<lparr>allowed = True, remaining = RATE_LIMIT - (count r + 1), resetIn = None\<rparr>,
      m(key \<mapsto> r\<lparr>count := count r + 1\<rparr>))"
  by (simp add: checkRateLimit_def)

lemma checkRateLimit_refused_unchanged:
  "\<not> allowed (fst (checkRateLimit t key m)) \<Longrightarrow> snd (checkRateLimit t key m) = m"
  by (auto simp: checkRateLimit_def split: option.splits if_splits)

lemma map_upt_shift: "map f [0..<Suc n] = f 0 # map (\<lambda>i. f (Suc i)) [0..<n]"
  by (simp add: upt_conv_Cons map_Suc_upt[symmetric] del: upt_Suc)

lemma seq_under:
  "m key = Some r \<Longrightarrow> \<forall>t\<in>set ts. t - windowStart r \<le> RATE_WINDOW * 1000 \<Longrightarrow>
   count r + int (length ts) \<le> RATE_LIMIT \<Longrightarrow>
   checkRateLimit_seq key ts m =
     (map (\<lambda>i. \<lparr>allowed = True, remaining = RATE_LIMIT - (count r + 1 + int i), resetIn = None\<rparr>)
        [0..<length ts],
      m(key \<mapsto> r\<lparr>count := count r + int (length ts)\<rparr>))"
proof (induction ts arbitrary: m r)
  case Nil
  then show ?case by (simp add: map_upd_triv)
next
  case (Cons t ts)
  let ?r = "r\<lparr>count := count r + 1\<rparr>"
  let ?m = "m(key \<mapsto> ?r)"
  have step: "checkRateLimit t key m =
     (\<lparr>allowed = True, remaining = RATE_LIMIT - (count r + 1), resetIn = None\<rparr>, ?m)"
    using Cons.prems by (intro checkRateLimit_under) auto
  have "checkRateLimit_seq key ts ?m =
     (map (\<lambda>i. \<lparr>allowed = True, remaining = RATE_LIMIT - (count ?r + 1 + int i), resetIn = None\<rparr>)
        [0..<length ts],
      ?m(key \<mapsto> ?r\<lparr>count := count ?r + int (length ts)\<rparr>))"
    using Cons.prems by (intro Cons.IH) auto
  then show ?case
    using step by (auto simp: map_upt_shift ac_simps simp del: upt_Suc)
qed

lemma seq_append:
  "checkRateLimit_seq key (xs @ ys) m =
     (case checkRateLimit_seq key xs m of
        (rs, m') \<Rightarrow> (case checkRateLimit_seq key ys m' of (rs', m'') \<Rightarrow> (rs @ rs', m'')))"
  by (induction xs arbitrary: m) (auto split: prod.splits)

text \<open>A whole window: the call that opens it and the calls after it, up to the limit.\<close>

lemma seq_window:
  assumes fresh: "m key = None \<or> (\<exists>r. m key = Some r \<and> t0 - windowStart r > RATE_WINDOW * 1000)"
    and inside: "\<forall>t\<in>set ts. t - t0 \<le> RATE_WINDOW * 1000"
    and few: "1 + int (length ts) \<le> RATE_LIMIT"
  shows "checkRateLimit_seq key (t0 # ts) m =
     (map (\<lambda>i. \<lparr>allowed = True, remaining = RATE_LIMIT - (1 + int i), resetIn = None\<rparr>)
        [0..<Suc (length ts)],
      m(key \<mapsto> \<lparr>windowStart = t0, count = 1 + int (length ts)\<rparr>))"
proof -
  let ?r = "\<lparr>windowStart = t0, count = 1\<rparr>"
  let ?m = "m(key \<mapsto> ?r)"
  have first: "checkRateLimit t0 key m =
      (\<lparr>allowed = True, remaining = RATE_LIMIT - 1, resetIn = None\<rparr>, ?m)"
    using fresh by (rule checkRateLimit_fresh)
  have rest: "checkRateLimit_seq key ts ?m =
     (map (\<lambda>i. \<lparr>allowed = True, remaining = RATE_LIMIT - (count ?r + 1 + int i), resetIn = None\<rparr>)
        [0..<length ts],
      ?m(key \<mapsto> ?r\<lparr>count := count ?r + int (length ts)\<rparr>))"
    using inside few by (intro seq_under) auto
  show ?thesis
    using first rest by (auto simp: map_upt_shift ac_simps simp del: upt_Suc)
qed

lemma reachable_count:
  "reachable m \<Longrightarrow> m key = Some r \<Longrightarrow> 1 \<le> count r \<and> count r \<le> RATE_LIMIT"
proof (induction arbitrary: key r rule: reachable.induct)
  case initial
  then show ?case by simp
next
  case (check m t k)
  have limit: "1 \<le> RATE_LIMIT" by (simp add: RATE_LIMIT_def)
  show ?case
  proof (cases "key = k")
    case False
    then have "m key = Some r"
      using check.prems by (simp add: checkRateLimit_def split: option.splits if_splits)
    then show ?thesis by (rule check.IH)
  next
    case True
    show ?thesis
    proof (cases "m k")
      case None
      then show ?thesis
        using check.prems True limit by (auto simp: checkRateLimit_def)
    next
      case (Some r0)
      then have "1 \<le> count r0 \<and> count r0 \<le> RATE_LIMIT" by (rule check.IH)
      then show ?thesis
        using check.prems True limit Some
        by (auto simp: checkRateLimit_def split: if_splits)
    qed
  qed
qed

subsection \<open>The serverless variant\<close>

lemma checkRateLimit_sl_fresh:
  "m ip = None \<or> (\<exists>r. m ip = Some r \<and> t - start r > RATE_WINDOW_sl) \<Longrightarrow>
   checkRateLimit_sl t ip m = (True, m(ip \<mapsto> \<lparr>start = t, count_sl = 1\<rparr>))"
  by (auto simp: checkRateLimit_sl_def)

lemma checkRateLimit_sl_denied:
  "m ip = Some r \<Longrightarrow> t - start r \<le> RATE_WINDOW_sl \<Longrightarrow> RATE_LIMIT_sl \<le> count_sl r \<Longrightarrow>
   checkRateLimit_sl t ip m = (False, m)"
  by (simp add: checkRateLimit_sl_def)

lemma checkRateLimit_sl_under:
  "m ip = Some r \<Longrightarrow> t - start r \<le> RATE_WINDOW_sl \<Longrightarrow> count_sl r < RATE_LIMIT_sl \<Longrightarrow>
   checkRateLimit_sl t ip m = (True, m(ip \<mapsto> r\<lparr>count_sl := count_sl r + 1\<rparr>))"
  by (simp add: checkRateLimit_sl_def)

lemma checkRateLimit_sl_refused_unchanged:
  "\<not> fst (checkRateLimit_sl t ip m) \<Longrightarrow> snd (checkRateLimit_sl t ip m) = m"
  by (auto simp: checkRateLimit_sl_def split: option.splits if_splits)

lemma seq_sl_under:
  "m ip = Some r \<Longrightarrow> \<forall>t\<in>set ts. t - start r \<le> RATE_WINDOW_sl \<Longrightarrow>
   count_sl r + int (length ts) \<le> RATE_LIMIT_sl \<Longrightarrow>
   checkRateLimit_sl_seq ip ts m =
     (replicate (length ts) True, m(ip \<mapsto> r\<lparr>count_sl := count_sl r + int (length ts)\<rparr>))"
proof (induction ts arbitrary: m r)
  case Nil
  then show ?case by (simp add: map_upd_triv)
next
  case (Cons t ts)
  let ?r = "r\<lparr>count_sl := count_sl r + 1\<rparr>"
  let ?m = "m(ip \<mapsto> ?r)"
  have step: "checkRateLimit_sl t ip m = (True, ?m)"
    using Cons.prems by (intro checkRateLimit_sl_under) auto
  have "checkRateLimit_sl_seq ip ts ?m =
     (replicate (length ts) True, ?m(ip \<mapsto> ?r\<lparr>count_sl := count_sl ?r + int (length ts)\<rparr>))"
    using Cons.prems by (intro Cons.IH) auto
  then show ?case
    using step by (auto simp: ac_simps)
qed

lemma seq_sl_append:
  "checkRateLimit_sl_seq ip (xs @ ys) m =
     (case checkRateLimit_sl_seq ip xs m of
        (rs, m') \<Rightarrow> (case checkRateLimit_sl_seq ip ys m' of (rs', m'') \<Rightarrow> (rs @ rs', m'')))"
  by (induction xs arbitrary: m) (auto split: prod.splits)

lemma seq_sl_window:
  assumes fresh: "m ip = None \<or> (\<exists>r. m ip = Some r \<and> t0 - start r > RATE_WINDOW_sl)"
    and inside: "\<forall>t\<in>set ts. t - t0 \<le> RATE_WINDOW_sl"
    and few: "1 + int (length ts) \<le> RATE_LIMIT_sl"
  shows "checkRateLimit_sl_seq ip (t0 # ts) m =
     (replicate (Suc (length ts)) True, m(ip \<mapsto> \<lparr>start = t0, count_sl = 1 + int (length ts)\<rparr>))"
proof -
  let ?r = "\<lparr>start = t0, count_sl = 1\<rparr>"
  let ?m = "m(ip \<mapsto> ?r)"
  have first: "checkRateLimit_sl t0 ip m = (True, ?m)"
    using fresh by (rule checkRateLimit_sl_fresh)
  have rest: "checkRateLimit_sl_seq ip ts ?m =
     (replicate (length ts) True, ?m(ip \<mapsto> ?r\<lparr>count_sl := count_sl ?r + int (length ts)\<rparr>))"
    using inside few by (intro seq_sl_under) auto
  show ?thesis
    using first rest by (auto simp: ac_simps)
qed

lemma reachable_sl_count:
  "reachable_sl m \<Longrightarrow> m ip = Some r \<Longrightarrow> 1 \<le> count_sl r \<and> count_sl r \<le> RATE_LIMIT_sl"
proof (induction arbitrary: ip r rule: reachable_sl.induct)
  case initial_sl
  then show ?case by simp
next
  case (check_sl m t k)
  have limit: "1 \<le> RATE_LIMIT_sl" by (simp add: RATE_LIMIT_sl_def)
  show ?case
  proof (cases "ip = k")
    case False
    then have "m ip = Some r"
      using check_sl.prems by (simp add: checkRateLimit_sl_def split: option.splits if_splits)
    then show ?thesis by (rule check_sl.IH)
  next
    case True
    show ?thesis
    proof (cases "m k")
      case None
      then show ?thesis
        using check_sl.prems True limit by (auto simp: checkRateLimit_sl_def)
    next
      case (Some r0)
      then have "1 \<le> count_sl r0 \<and> count_sl r0 \<le> RATE_LIMIT_sl" by (rule check_sl.IH)
      then show ?thesis
        using check_sl.prems True limit Some
        by (auto simp: checkRateLimit_sl_def split: if_splits)
    qed
  qed
qed

section \<open>Facts about the handler of the edge function\<close>

lemma written_finite: "all_finite v \<Longrightarrow> written v = v"
proof (induction v)
  case (JArr xs)
  then show ?case by (simp add: list_all_iff map_idI)
next
  case (JObj kvs)
  then show ?case by (auto simp: list_all_iff intro!: map_idI)
qed simp_all

lemma request_body_object:
  "map_of kvs ''messages'' = Some msgs \<Longrightarrow>
   request_body (JObj kvs) = Inr (JObj
     [(''model'', written (or_default (map_of kvs ''model'') (JStr ''gpt-4o-mini''))),
      (''messages'', written msgs),
      (''max_tokens'', written (or_default (map_of kvs ''max_tokens'') (JNum 1500))),
      (''temperature'', written (nullish_default (map_of kvs ''temperature'') (JNum 0.85)))])"
  by (simp add: request_body_def bind_err_def get_prop_def)

lemma isArray_messages_object:
  "get_prop b ''messages'' = Inr x \<Longrightarrow> isArray x \<Longrightarrow>
   \<exists>kvs msgs. b = JObj kvs \<and> map_of kvs ''messages'' = Some (JArr msgs)"
  by (cases b) (auto simp: get_prop_def isArray_def split: option.splits json.splits)

lemma handler_forward:
  assumes "req_method req = ''POST''"
    and "checkRateLimit (date_now e) (getRateLimitKey req) m = (rc, m')"
    and "allowed rc"
    and "req_json req = Some (JObj kvs)"
    and "map_of kvs ''messages'' = Some (JArr msgs)"
    and "OPENAI_API_KEY e = Some (k # ks)"
    and "c = \<lparr>url = ''https://api.openai.com/v1/chat/completions'', call_method = ''POST'',
              call_headers = [(''Content-Type'', ''application/json''),
                              (''Authorization'', ''Bearer '' @ k # ks)],
              call_body = JObj
                [(''model'', written (or_default (map_of kvs ''model'') (JStr ''gpt-4o-mini''))),
                 (''messages'', JArr (map written msgs)),
                 (''max_tokens'', written (or_default (map_of kvs ''max_tokens'') (JNum 1500))),
                 (''temperature'',
                    written (nullish_default (map_of kvs ''temperature'') (JNum 0.85)))]\<rparr>"
  shows "handler e req m =
     \<lparr>result = Inr
        (case (case fetch e c of
                 Rejects reason \<Rightarrow> Inl (FetchError reason)
               | Resolves openaiRes \<Rightarrow> reply (corsHeaders req) rc openaiRes) of
           Inl err \<Rightarrow>
             \<lparr>status = 502,
              headers = corsHeaders req @ [(''Content-Type'', ''application/json'')],
              body = Some (JObj [(''error'', JStr ''Failed to reach AI service'')])\<rparr>
         | Inr r \<Rightarrow> r),
      calls = [c], store = m'\<rparr>"
  using assms
  by (simp add: handler_def Let_def try_block_def request_body_object get_prop_def isArray_def
      json_response_def split: fetch_result.splits sum.splits)

lemma handler_calls_D:
  assumes "calls (handler e req m) = [c]"
  shows "req_method req = ''POST'' \<and> allowed (fst (checkRateLimit (date_now e) (getRateLimitKey req) m))
    \<and> (\<exists>kvs msgs. req_json req = Some (JObj kvs) \<and> map_of kvs ''messages'' = Some (JArr msgs))
    \<and> (\<exists>k ks. OPENAI_API_KEY e = Some (k # ks))"
  using assms
  by (auto simp: handler_def Let_def dest: isArray_messages_object
      split: if_splits prod.splits option.splits sum.splits list.splits)


lemma get_prop_not_null: "b \<noteq> JNull \<Longrightarrow> get_prop b name = Inr (get_prop_opt (Some b) name)"
  by (cases b) (simp_all add: get_prop_def get_prop_opt_def)

lemma handler_405:
  "req_method req \<noteq> ''OPTIONS'' \<Longrightarrow> req_method req \<noteq> ''POST'' \<Longrightarrow>
   handler e req m =
     \<lparr>result = Inr \<lparr>status = 405,
        headers = corsHeaders req @ [(''Content-Type'', ''application/json'')],
        body = Some (JObj [(''error'', JStr ''Method not allowed'')])\<rparr>,
      calls = [], store = m\<rparr>"
  by (simp add: handler_def Let_def json_response_def)

lemma handler_429:
  "req_method req = ''POST'' \<Longrightarrow> \<not> allowed (fst (checkRateLimit (date_now e) (getRateLimitKey req) m)) \<Longrightarrow>
   map_sum id status (result (handler e req m)) = Inr 429 \<and> calls (handler e req m) = []
   \<and> store (handler e req m) = m"
  using checkRateLimit_refused_unchanged[of "date_now e" "getRateLimitKey req" m]
  by (cases "checkRateLimit (date_now e) (getRateLimitKey req) m")
    (simp add: handler_def Let_def json_response_def)

lemma handler_400_json:
  "req_method req = ''POST'' \<Longrightarrow> allowed (fst (checkRateLimit (date_now e) (getRateLimitKey req) m)) \<Longrightarrow>
   req_json req = None \<Longrightarrow>
   handler e req m =
     \<lparr>result = Inr \<lparr>status = 400,
        headers = corsHeaders req @ [(''Content-Type'', ''application/json'')],
        body = Some (JObj [(''error'', JStr ''Invalid JSON'')])\<rparr>,
      calls = [], store = snd (checkRateLimit (date_now e) (getRateLimitKey req) m)\<rparr>"
  by (cases "checkRateLimit (date_now e) (getRateLimitKey req) m")
    (simp add: handler_def Let_def json_response_def)

lemma handler_400_messages:
  "req_method req = ''POST'' \<Longrightarrow> allowed (fst (checkRateLimit (date_now e) (getRateLimitKey req) m)) \<Longrightarrow>
   req_json req = Some b \<Longrightarrow> b \<noteq> JNull \<Longrightarrow> \<not> isArray (get_prop_opt (Some b) ''messages'') \<Longrightarrow>
   handler e req m =
     \<lparr>result = Inr \<lparr>status = 400,
        headers = corsHeaders req @ [(''Content-Type'', ''application/json'')],
        body = Some (JObj [(''error'', JStr ''messages array required'')])\<rparr>,
      calls = [], store = snd (checkRateLimit (date_now e) (getRateLimitKey req) m)\<rparr>"
  by (cases "checkRateLimit (date_now e) (getRateLimitKey req) m")
    (simp add: handler_def Let_def json_response_def get_prop_not_null)

text \<open>
  A body that is the JSON value \<^verbatim>\<open>null\<close>: \<^verbatim>\<open>body.messages\<close> throws, outside the \<^verbatim>\<open>try\<close>
  block, and the handler returns no response.
\<close>

lemma handler_null_body:
  "req_method req = ''POST'' \<Longrightarrow> allowed (fst (checkRateLimit (date_now e) (getRateLimitKey req) m)) \<Longrightarrow>
   req_json req = Some JNull \<Longrightarrow> result (handler e req m) = Inl TypeError"
  by (cases "checkRateLimit (date_now e) (getRateLimitKey req) m")
    (simp add: handler_def Let_def get_prop_def)

lemma handler_500:
  "req_method req = ''POST'' \<Longrightarrow> allowed (fst (checkRateLimit (date_now e) (getRateLimitKey req) m)) \<Longrightarrow>
   req_json req = Some b \<Longrightarrow> isArray (get_prop_opt (Some b) ''messages'') \<Longrightarrow>
   OPENAI_API_KEY e = None \<or> OPENAI_API_KEY e = Some [] \<Longrightarrow>
   handler e req m =
     \<lparr>result = Inr \<lparr>status = 500,
        headers = corsHeaders req @ [(''Content-Type'', ''application/json'')],
        body = Some (JObj [(''error'', JStr ''Server misconfigured'')])\<rparr>,
      calls = [], store = snd (checkRateLimit (date_now e) (getRateLimitKey req) m)\<rparr>"
proof -
  assume a: "req_method req = ''POST''" "allowed (fst (checkRateLimit (date_now e) (getRateLimitKey req) m))"
    "req_json req = Some b" "isArray (get_prop_opt (Some b) ''messages'')"
    "OPENAI_API_KEY e = None \<or> OPENAI_API_KEY e = Some []"
  have "b \<noteq> JNull" using a(4) by (auto simp: isArray_def get_prop_opt_def)
  then show ?thesis
    using a by (cases "checkRateLimit (date_now e) (getRateLimitKey req) m")
      (auto simp: handler_def Let_def json_response_def get_prop_not_null)
qed

lemma handler_store:
  "store (handler e req m) = m
   \<or> store (handler e req m) = snd (checkRateLimit (date_now e) (getRateLimitKey req) m)"
  by (cases "checkRateLimit (date_now e) (getRateLimitKey req) m")
    (auto simp: handler_def Let_def split: prod.splits option.splits sum.splits list.splits)

lemma reply_not_ok:
  "\<not> ok res \<Longrightarrow> res_json res \<noteq> Some JNull \<Longrightarrow>
   200 \<le> res_status res \<Longrightarrow> res_status res \<le> 599 \<Longrightarrow>
   res_status res \<notin> {204, 205, 304} \<Longrightarrow>
   reply cors rc res = Inr
     \<lparr>status = res_status res,
      headers = cors @ [(''Content-Type'', ''application/json'')],
      body = Some (JObj [(''error'',
        written (or_default (get_prop_opt (get_prop_opt (res_json res) ''error'') ''message'')
          (JStr (''OpenAI error: '' @ string_of_int (res_status res)))))])\<rparr>"
  by (auto simp: reply_def Let_def bind_err_def get_prop_def get_prop_opt_def new_Response_def
      split: option.splits json.splits)

text \<open>
  An upstream error with a status that the constructor refuses: it throws, inside the
  \<^verbatim>\<open>try\<close> block.
\<close>

lemma reply_not_ok_refused:
  "\<not> ok res \<Longrightarrow>
   res_status res < 200 \<or> 599 < res_status res \<or> res_status res \<in> {204, 205, 304} \<Longrightarrow>
   \<exists>err. reply cors rc res = Inl err"
  by (auto simp: reply_def Let_def bind_err_def get_prop_def new_Response_def
      split: option.splits json.splits)

text \<open>
  An upstream error whose body is the JSON value \<^verbatim>\<open>null\<close>: \<^verbatim>\<open>err.error\<close> throws, inside
  the \<^verbatim>\<open>try\<close> block.
\<close>

lemma reply_not_ok_null:
  "\<not> ok res \<Longrightarrow> res_json res = Some JNull \<Longrightarrow> reply cors rc res = Inl TypeError"
  by (simp add: reply_def Let_def bind_err_def get_prop_def)

lemma reply_ok:
  "ok res \<Longrightarrow> res_json res = Some data \<Longrightarrow> first_content data = Inr content \<Longrightarrow>
   reply cors rc res = Inr
     \<lparr>status = 200,
      headers = cors @ [(''Content-Type'', ''application/json'')],
      body = Some (JObj (stringify
        [(''content'', content), (''remaining'', Some (JNum (of_int (remaining rc))))]))\<rparr>"
  by (simp add: reply_def bind_err_def json_response_def)

lemma reply_ok_malformed:
  "ok res \<Longrightarrow> res_json res = None \<or> (\<exists>data err. res_json res = Some data \<and> first_content data = Inl err) \<Longrightarrow>
   \<exists>err. reply cors rc res = Inl err"
  by (auto simp: reply_def bind_err_def)

lemma first_content_completion:
  "map_of kvs ''choices'' = Some (JArr (JObj ckvs # others)) \<Longrightarrow>
   map_of ckvs ''message'' = Some (JObj mkvs) \<Longrightarrow>
   first_content (JObj kvs) = Inr (map_of mkvs ''content'')"
  by (simp add: first_content_def bind_err_def get_prop_def get_index0_def get_prop_of_def)

section \<open>Facts about the handler of the serverless function\<close>

lemma destructure_body:
  "get_prop (or_default x (JObj [])) name = Inr (get_prop_opt x name)"
  by (auto simp: or_default_def truthy_def get_prop_def get_prop_opt_def
      split: option.splits json.splits)

lemma isArray_messages_object_sl:
  "isArray (get_prop_opt x ''messages'') \<Longrightarrow>
   \<exists>kvs msgs. x = Some (JObj kvs) \<and> map_of kvs ''messages'' = Some (JArr msgs)"
  by (auto simp: get_prop_opt_def isArray_def split: option.splits json.splits)

lemma handler_sl_forward:
  assumes "method_sl req = ''POST''"
    and "checkRateLimit_sl (date_now e) (client_ip req) m = (True, m')"
    and "body_sl req = Some (JObj kvs)"
    and "map_of kvs ''messages'' = Some (JArr msgs)"
    and "OPENAI_API_KEY e = Some (k # ks)"
    and "c = \<lparr>url = ''https://api.openai.com/v1/chat/completions'', call_method = ''POST'',
              call_headers = [(''Content-Type'', ''application/json''),
                              (''Authorization'', ''Bearer '' @ k # ks)],
              call_body = JObj
                [(''model'', JStr ''gpt-4o-mini''),
                 (''messages'', JArr (map written msgs)),
                 (''max_tokens'', written (or_default (map_of kvs ''max_tokens'') (JNum 2500))),
                 (''temperature'',
                    written (nullish_default (map_of kvs ''temperature'') (JNum 0.85)))]\<rparr>"
  shows "handler_sl e req m =
     \<lparr>result = Inr
        (case (case fetch e c of
                 Rejects reason \<Rightarrow> Inl (FetchError reason)
               | Resolves openaiRes \<Rightarrow> reply_sl openaiRes) of
           Inl err \<Rightarrow>
             \<lparr>status = 502, headers = corsHeaders_sl,
              body = Some (JObj [(''error'', JStr ''Failed to reach AI service'')])\<rparr>
         | Inr r \<Rightarrow> r),
      calls = [c], store = m'\<rparr>"
  using assms
  by (simp add: handler_sl_def Let_def try_block_sl_def destructure_body get_prop_opt_def
      bind_err_def isArray_def json_response_def split: fetch_result.splits sum.splits)

lemma handler_sl_calls_D:
  assumes "calls (handler_sl e req m) = [c]"
  shows "method_sl req = ''POST'' \<and> fst (checkRateLimit_sl (date_now e) (client_ip req) m)
    \<and> (\<exists>kvs msgs. body_sl req = Some (JObj kvs) \<and> map_of kvs ''messages'' = Some (JArr msgs))
    \<and> (\<exists>k ks. OPENAI_API_KEY e = Some (k # ks))"
  using assms
  by (cases "checkRateLimit_sl (date_now e) (client_ip req) m")
    (auto simp: handler_sl_def Let_def destructure_body bind_err_def
      dest: isArray_messages_object_sl
      split: if_splits option.splits sum.splits list.splits)

lemma handler_sl_405:
  "method_sl req \<noteq> ''OPTIONS'' \<Longrightarrow> method_sl req \<noteq> ''POST'' \<Longrightarrow>
   handler_sl e req m =
     \<lparr>result = Inr \<lparr>status = 405, headers = corsHeaders_sl,
        body = Some (JObj [(''error'', JStr ''Method not allowed'')])\<rparr>,
      calls = [], store = m\<rparr>"
  by (simp add: handler_sl_def json_response_def)

lemma handler_sl_429:
  "method_sl req = ''POST'' \<Longrightarrow> \<not> fst (checkRateLimit_sl (date_now e) (client_ip req) m) \<Longrightarrow>
   handler_sl e req m =
     \<lparr>result = Inr \<lparr>status = 429, headers = corsHeaders_sl,
        body = Some (JObj [(''error'', JStr ''Rate limited. Try again later.'')])\<rparr>,
      calls = [], store = m\<rparr>"
  using checkRateLimit_sl_refused_unchanged[of "date_now e" "client_ip req" m]
  by (cases "checkRateLimit_sl (date_now e) (client_ip req) m")
    (simp add: handler_sl_def json_response_def)

lemma handler_sl_400:
  "method_sl req = ''POST'' \<Longrightarrow> fst (checkRateLimit_sl (date_now e) (client_ip req) m) \<Longrightarrow>
   \<not> isArray (get_prop_opt (body_sl req) ''messages'') \<Longrightarrow>
   handler_sl e req m =
     \<lparr>result = Inr \<lparr>status = 400, headers = corsHeaders_sl,
        body = Some (JObj [(''error'', JStr ''messages array required'')])\<rparr>,
      calls = [], store = snd (checkRateLimit_sl (date_now e) (client_ip req) m)\<rparr>"
  by (cases "checkRateLimit_sl (date_now e) (client_ip req) m")
    (simp add: handler_sl_def Let_def destructure_body bind_err_def json_response_def)

lemma handler_sl_500:
  "method_sl req = ''POST'' \<Longrightarrow> fst (checkRateLimit_sl (date_now e) (client_ip req) m) \<Longrightarrow>
   isArray (get_prop_opt (body_sl req) ''messages'') \<Longrightarrow>
   OPENAI_API_KEY e = None \<or> OPENAI_API_KEY e = Some [] \<Longrightarrow>
   handler_sl e req m =
     \<lparr>result = Inr \<lparr>status = 500, headers = corsHeaders_sl,
        body = Some (JObj [(''error'', JStr ''Server misconfigured'')])\<rparr>,
      calls = [], store = snd (checkRateLimit_sl (date_now e) (client_ip req) m)\<rparr>"
  by (cases "checkRateLimit_sl (date_now e) (client_ip req) m")
    (auto simp: handler_sl_def Let_def destructure_body bind_err_def json_response_def)

lemma handler_sl_store:
  "store (handler_sl e req m) = m
   \<or> store (handler_sl e req m) = snd (checkRateLimit_sl (date_now e) (client_ip req) m)"
  by (cases "checkRateLimit_sl (date_now e) (client_ip req) m")
    (auto simp: handler_sl_def Let_def destructure_body bind_err_def
      split: prod.splits option.splits sum.splits list.splits)

text \<open>The serverless handler never throws: every invocation ends in a response.\<close>

lemma handler_sl_returns: "\<exists>r. result (handler_sl e req m) = Inr r"
  by (cases "checkRateLimit_sl (date_now e) (client_ip req) m")
    (auto simp: handler_sl_def Let_def destructure_body bind_err_def
      split: prod.splits option.splits sum.splits list.splits)

lemma reply_sl_not_ok:
  "\<not> ok res \<Longrightarrow> res_json res \<noteq> Some JNull \<Longrightarrow>
   reply_sl res = Inr
     \<lparr>status = res_status res, headers = corsHeaders_sl,
      body = Some (JObj [(''error'',
        written (or_default (get_prop_opt (get_prop_opt (res_json res) ''error'') ''message'')
          (JStr ''OpenAI error'')))])\<rparr>"
  by (auto simp: reply_sl_def Let_def bind_err_def get_prop_def get_prop_opt_def json_response_def
      split: option.splits json.splits)

lemma reply_sl_not_ok_null:
  "\<not> ok res \<Longrightarrow> res_json res = Some JNull \<Longrightarrow> reply_sl res = Inl TypeError"
  by (simp add: reply_sl_def Let_def bind_err_def get_prop_def)

lemma reply_sl_ok:
  "ok res \<Longrightarrow> res_json res = Some data \<Longrightarrow> first_content data = Inr content \<Longrightarrow>
   reply_sl res = Inr
     \<lparr>status = 200, headers = corsHeaders_sl,
      body = Some (JObj (stringify [(''content'', content)]))\<rparr>"
  by (simp add: reply_sl_def bind_err_def json_response_def)

lemma reply_sl_ok_malformed:
  "ok res \<Longrightarrow> res_json res = None \<or> (\<exists>data err. res_json res = Some data \<and> first_content data = Inl err) \<Longrightarrow>
   \<exists>err. reply_sl res = Inl err"
  by (auto simp: reply_sl_def bind_err_def)

section \<open>The rate limiter: the claims\<close>

text \<open>
  Claim C1, as the code has it. When the record of a key has reached the limit and its
  window has not expired (the clock reading minus the window start does not exceed the
  window's duration), the check denies: \<^verbatim>\<open>allowed\<close> is false, \<^verbatim>\<open>remaining\<close> is 0, the map
  is left as it was, and \<^verbatim>\<open>resetIn\<close> is the ceiling of (window start + duration - now)
  in seconds. That number is never negative; it is positive when the clock reading minus
  the window start is strictly less than the duration, and it is 0 when the two are
  equal. In particular the call after \<^verbatim>\<open>RATE_LIMIT\<close> calls in one unexpired window is
  denied. The serverless variant answers \<^verbatim>\<open>false\<close> in the same situations and has no
  \<^verbatim>\<open>resetIn\<close>.
\<close>

theorem checkRateLimit_denies_at_limit:
  "(m key = Some r \<and> RATE_LIMIT \<le> count r \<and> t - windowStart r \<le> RATE_WINDOW * 1000 \<longrightarrow>
      checkRateLimit t key m =
        (\<lparr>allowed = False, remaining = 0,
          resetIn = Some \<lceil>real_of_int (windowStart r + RATE_WINDOW * 1000 - t) / 1000\<rceil>\<rparr>, m)
      \<and> 0 \<le> \<lceil>real_of_int (windowStart r + RATE_WINDOW * 1000 - t) / 1000\<rceil>
      \<and> (t - windowStart r < RATE_WINDOW * 1000 \<longrightarrow>
           0 < \<lceil>real_of_int (windowStart r + RATE_WINDOW * 1000 - t) / 1000\<rceil>)
      \<and> (t - windowStart r = RATE_WINDOW * 1000 \<longrightarrow>
           \<lceil>real_of_int (windowStart r + RATE_WINDOW * 1000 - t) / 1000\<rceil> = 0))
   \<and> ((m key = None \<or> (\<exists>r'. m key = Some r' \<and> t0 - windowStart r' > RATE_WINDOW * 1000))
        \<and> int (length ts) = RATE_LIMIT - 1
        \<and> (\<forall>u\<in>set (ts @ [t]). u - t0 \<le> RATE_WINDOW * 1000) \<longrightarrow>
      map allowed (fst (checkRateLimit_seq key (t0 # ts @ [t]) m))
        = replicate (nat RATE_LIMIT) True @ [False]
      \<and> last (fst (checkRateLimit_seq key (t0 # ts @ [t]) m))
        = \<lparr>allowed = False, remaining = 0,
           resetIn = Some \<lceil>real_of_int (t0 + RATE_WINDOW * 1000 - t) / 1000\<rceil>\<rparr>)
   \<and> (ms ip = Some rs \<and> RATE_LIMIT_sl \<le> count_sl rs \<and> t - start rs \<le> RATE_WINDOW_sl \<longrightarrow>
        checkRateLimit_sl t ip ms = (False, ms))
   \<and> ((ms ip = None \<or> (\<exists>r'. ms ip = Some r' \<and> t0 - start r' > RATE_WINDOW_sl))
        \<and> int (length ts') = RATE_LIMIT_sl - 1
        \<and> (\<forall>u\<in>set (ts' @ [t]). u - t0 \<le> RATE_WINDOW_sl) \<longrightarrow>
      fst (checkRateLimit_sl_seq ip (t0 # ts' @ [t]) ms)
        = replicate (nat RATE_LIMIT_sl) True @ [False])"
proof (intro conjI impI; (elim conjE)?)
  let ?x = "windowStart r + RATE_WINDOW * 1000 - t"
  assume a: "m key = Some r" "RATE_LIMIT \<le> count r" "t - windowStart r \<le> RATE_WINDOW * 1000"
  show "checkRateLimit t key m =
        (\<lparr>allowed = False, remaining = 0, resetIn = Some \<lceil>real_of_int ?x / 1000\<rceil>\<rparr>, m)"
    using checkRateLimit_denied[of m key r t] a ceil_div_real[of ?x 1000] by simp
  show "0 \<le> \<lceil>real_of_int ?x / 1000\<rceil>"
    using ceil_div_nonneg[of ?x] ceil_div_real[of ?x 1000] a(3) by simp
  show "0 < \<lceil>real_of_int ?x / 1000\<rceil>" if "t - windowStart r < RATE_WINDOW * 1000"
    using ceil_div_pos[of ?x] ceil_div_real[of ?x 1000] that by simp
  show "\<lceil>real_of_int ?x / 1000\<rceil> = 0" if "t - windowStart r = RATE_WINDOW * 1000"
  proof -
    have "?x = 0" using that by simp
    then show ?thesis by simp
  qed
next
  assume fresh: "m key = None \<or> (\<exists>r'. m key = Some r' \<and> t0 - windowStart r' > RATE_WINDOW * 1000)"
    and len: "int (length ts) = RATE_LIMIT - 1"
    and inside: "\<forall>u\<in>set (ts @ [t]). u - t0 \<le> RATE_WINDOW * 1000"
  let ?m = "m(key \<mapsto> \<lparr>windowStart = t0, count = 1 + int (length ts)\<rparr>)"
  have window: "checkRateLimit_seq key (t0 # ts) m =
     (map (\<lambda>i. \<lparr>allowed = True, remaining = RATE_LIMIT - (1 + int i), resetIn = None\<rparr>)
        [0..<Suc (length ts)], ?m)"
    using fresh inside len by (intro seq_window) auto
  have final: "checkRateLimit t key ?m =
     (\<lparr>allowed = False, remaining = 0,
       resetIn = Some \<lceil>real_of_int (t0 + RATE_WINDOW * 1000 - t) / 1000\<rceil>\<rparr>, ?m)"
    using checkRateLimit_denied[of ?m key "\<lparr>windowStart = t0, count = 1 + int (length ts)\<rparr>" t]
      ceil_div_real[of "t0 + RATE_WINDOW * 1000 - t" 1000] inside len by simp
  have all: "fst (checkRateLimit_seq key (t0 # ts @ [t]) m) =
      map (\<lambda>i. \<lparr>allowed = True, remaining = RATE_LIMIT - (1 + int i), resetIn = None\<rparr>)
        [0..<Suc (length ts)]
      @ [\<lparr>allowed = False, remaining = 0,
          resetIn = Some \<lceil>real_of_int (t0 + RATE_WINDOW * 1000 - t) / 1000\<rceil>\<rparr>]"
    using seq_append[of key "t0 # ts" "[t]" m] window final by (simp del: upt_Suc)
  have n: "Suc (length ts) = nat RATE_LIMIT" using len by simp
  show "map allowed (fst (checkRateLimit_seq key (t0 # ts @ [t]) m))
        = replicate (nat RATE_LIMIT) True @ [False]"
    unfolding all n[symmetric] by (simp add: comp_def map_replicate_const del: upt_Suc replicate_Suc)
  show "last (fst (checkRateLimit_seq key (t0 # ts @ [t]) m))
        = \<lparr>allowed = False, remaining = 0,
           resetIn = Some \<lceil>real_of_int (t0 + RATE_WINDOW * 1000 - t) / 1000\<rceil>\<rparr>"
    unfolding all by simp
next
  assume "ms ip = Some rs" "RATE_LIMIT_sl \<le> count_sl rs" "t - start rs \<le> RATE_WINDOW_sl"
  then show "checkRateLimit_sl t ip ms = (False, ms)"
    by (intro checkRateLimit_sl_denied)
next
  assume fresh: "ms ip = None \<or> (\<exists>r'. ms ip = Some r' \<and> t0 - start r' > RATE_WINDOW_sl)"
    and len: "int (length ts') = RATE_LIMIT_sl - 1"
    and inside: "\<forall>u\<in>set (ts' @ [t]). u - t0 \<le> RATE_WINDOW_sl"
  let ?m = "ms(ip \<mapsto> \<lparr>start = t0, count_sl = 1 + int (length ts')\<rparr>)"
  have window: "checkRateLimit_sl_seq ip (t0 # ts') ms = (replicate (Suc (length ts')) True, ?m)"
    using fresh inside len by (intro seq_sl_window) auto
  have final: "checkRateLimit_sl t ip ?m = (False, ?m)"
    using checkRateLimit_sl_denied[of ?m ip "\<lparr>start = t0, count_sl = 1 + int (length ts')\<rparr>" t]
      inside len by simp
  have n: "Suc (length ts') = nat RATE_LIMIT_sl" using len by simp
  show "fst (checkRateLimit_sl_seq ip (t0 # ts' @ [t]) ms) = replicate (nat RATE_LIMIT_sl) True @ [False]"
    using seq_sl_append[of ip "t0 # ts'" "[t]" ms] window final unfolding n[symmetric]
    by (simp del: replicate_Suc)
qed

theorem checkRateLimit_denies_at_limit_witness:
  "checkRateLimit 1000 ''203.0.113.7'' [''203.0.113.7'' \<mapsto> \<lparr>windowStart = 0, count = 20\<rparr>]
     = (\<lparr>allowed = False, remaining = 0, resetIn = Some 3599\<rparr>,
        [''203.0.113.7'' \<mapsto> \<lparr>windowStart = 0, count = 20\<rparr>])
   \<and> map allowed (fst (checkRateLimit_seq ''203.0.113.7'' (0 # replicate 19 5 @ [1000]) Map.empty))
     = replicate 20 True @ [False]
   \<and> last (fst (checkRateLimit_seq ''203.0.113.7'' (0 # replicate 19 5 @ [1000]) Map.empty))
     = \<lparr>allowed = False, remaining = 0, resetIn = Some 3599\<rparr>
   \<and> checkRateLimit_sl 1000 ''203.0.113.7'' [''203.0.113.7'' \<mapsto> \<lparr>start = 0, count_sl = 100\<rparr>]
     = (False, [''203.0.113.7'' \<mapsto> \<lparr>start = 0, count_sl = 100\<rparr>])
   \<and> fst (checkRateLimit_sl_seq ''203.0.113.7'' (0 # replicate 99 5 @ [1000]) Map.empty)
     = replicate 100 True @ [False]"
proof -
  note a = checkRateLimit_denies_at_limit
    [of "[''203.0.113.7'' \<mapsto> \<lparr>windowStart = 0, count = 20\<rparr>]" "''203.0.113.7''"
        "\<lparr>windowStart = 0, count = 20\<rparr>" 1000 0 "[]"
        "[''203.0.113.7'' \<mapsto> \<lparr>start = 0, count_sl = 100\<rparr>]" "''203.0.113.7''"
        "\<lparr>start = 0, count_sl = 100\<rparr>" "[]"]
  note b = checkRateLimit_denies_at_limit
    [of Map.empty "''203.0.113.7''" "\<lparr>windowStart = 0, count = 1\<rparr>" 1000 0 "replicate 19 5"
        Map.empty "''203.0.113.7''" "\<lparr>start = 0, count_sl = 1\<rparr>" "replicate 99 5"]
  show ?thesis
    using a b by (simp add: RATE_LIMIT_def RATE_WINDOW_def RATE_LIMIT_sl_def RATE_WINDOW_sl_def)
qed

theorem resetIn_zero_at_window_end:
  "[''203.0.113.7'' \<mapsto> \<lparr>windowStart = 0, count = 20\<rparr>] ''203.0.113.7''
     = Some \<lparr>windowStart = 0, count = 20\<rparr>
   \<and> RATE_LIMIT \<le> count \<lparr>windowStart = 0, count = 20\<rparr>
   \<and> 3600000 - windowStart \<lparr>windowStart = 0, count = 20\<rparr> \<le> RATE_WINDOW * 1000
   \<and> checkRateLimit 3600000 ''203.0.113.7'' [''203.0.113.7'' \<mapsto> \<lparr>windowStart = 0, count = 20\<rparr>]
     = (\<lparr>allowed = False, remaining = 0, resetIn = Some 0\<rparr>,
        [''203.0.113.7'' \<mapsto> \<lparr>windowStart = 0, count = 20\<rparr>])
   \<and> \<not> 0 < the (resetIn (fst (checkRateLimit 3600000 ''203.0.113.7''
        [''203.0.113.7'' \<mapsto> \<lparr>windowStart = 0, count = 20\<rparr>])))"
  by (simp add: checkRateLimit_def RATE_LIMIT_def RATE_WINDOW_def ceil_div_def)

text \<open>
  Claim C2. In an unexpired window with the count strictly below the limit the check
  adds one to the count and returns \<^verbatim>\<open>allowed\<close> true with \<^verbatim>\<open>remaining\<close> = limit minus the
  new count. Hence over successive calls of one key that stay within one window and under
  the limit, whether they start at an existing record or with the call that opens the
  window, \<^verbatim>\<open>remaining\<close> goes down by exactly 1 from each call to the next. The serverless
  variant answers \<^verbatim>\<open>true\<close> and adds one to its count.
\<close>

theorem checkRateLimit_allows_under_limit:
  "(m key = Some r \<and> t - windowStart r \<le> RATE_WINDOW * 1000 \<and> count r < RATE_LIMIT \<longrightarrow>
      checkRateLimit t key m =
        (\<lparr>allowed = True, remaining = RATE_LIMIT - (count r + 1), resetIn = None\<rparr>,
         m(key \<mapsto> r\<lparr>count := count r + 1\<rparr>)))
   \<and> (m key = Some r \<and> (\<forall>u\<in>set ts. u - windowStart r \<le> RATE_WINDOW * 1000)
        \<and> count r + int (length ts) \<le> RATE_LIMIT \<longrightarrow>
      checkRateLimit_seq key ts m =
        (map (\<lambda>i. \<lparr>allowed = True, remaining = RATE_LIMIT - (count r + 1) - int i, resetIn = None\<rparr>)
           [0..<length ts],
         m(key \<mapsto> r\<lparr>count := count r + int (length ts)\<rparr>))
      \<and> (\<forall>i. Suc i < length ts \<longrightarrow>
            remaining (fst (checkRateLimit_seq key ts m) ! Suc i)
              = remaining (fst (checkRateLimit_seq key ts m) ! i) - 1))
   \<and> ((m key = None \<or> (\<exists>r'. m key = Some r' \<and> t0 - windowStart r' > RATE_WINDOW * 1000))
        \<and> (\<forall>u\<in>set ts. u - t0 \<le> RATE_WINDOW * 1000)
        \<and> 1 + int (length ts) \<le> RATE_LIMIT \<longrightarrow>
      checkRateLimit_seq key (t0 # ts) m =
        (map (\<lambda>i. \<lparr>allowed = True, remaining = RATE_LIMIT - 1 - int i, resetIn = None\<rparr>)
           [0..<Suc (length ts)],
         m(key \<mapsto> \<lparr>windowStart = t0, count = 1 + int (length ts)\<rparr>)))
   \<and> (ms ip = Some rs \<and> t - start rs \<le> RATE_WINDOW_sl \<and> count_sl rs < RATE_LIMIT_sl \<longrightarrow>
        checkRateLimit_sl t ip ms = (True, ms(ip \<mapsto> rs\<lparr>count_sl := count_sl rs + 1\<rparr>)))
   \<and> (ms ip = Some rs \<and> (\<forall>u\<in>set ts. u - start rs \<le> RATE_WINDOW_sl)
        \<and> count_sl rs + int (length ts) \<le> RATE_LIMIT_sl \<longrightarrow>
        checkRateLimit_sl_seq ip ts ms =
          (replicate (length ts) True, ms(ip \<mapsto> rs\<lparr>count_sl := count_sl rs + int (length ts)\<rparr>)))"
proof (intro conjI impI; (elim conjE)?)
  assume "m key = Some r" "t - windowStart r \<le> RATE_WINDOW * 1000" "count r < RATE_LIMIT"
  then show "checkRateLimit t key m =
        (\<lparr>allowed = True, remaining = RATE_LIMIT - (count r + 1), resetIn = None\<rparr>,
         m(key \<mapsto> r\<lparr>count := count r + 1\<rparr>))"
    by (rule checkRateLimit_under)
next
  assume a: "m key = Some r" "\<forall>u\<in>set ts. u - windowStart r \<le> RATE_WINDOW * 1000"
    "count r + int (length ts) \<le> RATE_LIMIT"
  have eq: "checkRateLimit_seq key ts m =
        (map (\<lambda>i. \<lparr>allowed = True, remaining = RATE_LIMIT - (count r + 1) - int i, resetIn = None\<rparr>)
           [0..<length ts],
         m(key \<mapsto> r\<lparr>count := count r + int (length ts)\<rparr>))"
    using seq_under[of m key r ts] a by (simp add: algebra_simps)
  then show "checkRateLimit_seq key ts m =
        (map (\<lambda>i. \<lparr>allowed = True, remaining = RATE_LIMIT - (count r + 1) - int i, resetIn = None\<rparr>)
           [0..<length ts],
         m(key \<mapsto> r\<lparr>count := count r + int (length ts)\<rparr>))" .
  show "\<forall>i. Suc i < length ts \<longrightarrow>
            remaining (fst (checkRateLimit_seq key ts m) ! Suc i)
              = remaining (fst (checkRateLimit_seq key ts m) ! i) - 1"
    unfolding eq by simp
next
  assume "m key = None \<or> (\<exists>r'. m key = Some r' \<and> t0 - windowStart r' > RATE_WINDOW * 1000)"
    "\<forall>u\<in>set ts. u - t0 \<le> RATE_WINDOW * 1000" "1 + int (length ts) \<le> RATE_LIMIT"
  then show "checkRateLimit_seq key (t0 # ts) m =
        (map (\<lambda>i. \<lparr>allowed = True, remaining = RATE_LIMIT - 1 - int i, resetIn = None\<rparr>)
           [0..<Suc (length ts)],
         m(key \<mapsto> \<lparr>windowStart = t0, count = 1 + int (length ts)\<rparr>))"
    using seq_window[of m key t0 ts] by (simp add: algebra_simps del: upt_Suc)
next
  assume "ms ip = Some rs" "t - start rs \<le> RATE_WINDOW_sl" "count_sl rs < RATE_LIMIT_sl"
  then show "checkRateLimit_sl t ip ms = (True, ms(ip \<mapsto> rs\<lparr>count_sl := count_sl rs + 1\<rparr>))"
    by (rule checkRateLimit_sl_under)
next
  assume "ms ip = Some rs" "\<forall>u\<in>set ts. u - start rs \<le> RATE_WINDOW_sl"
    "count_sl rs + int (length ts) \<le> RATE_LIMIT_sl"
  then show "checkRateLimit_sl_seq ip ts ms =
          (replicate (length ts) True, ms(ip \<mapsto> rs\<lparr>count_sl := count_sl rs + int (length ts)\<rparr>))"
    by (rule seq_sl_under)
qed

theorem checkRateLimit_allows_under_limit_witness:
  "checkRateLimit 7000 ''203.0.113.7'' [''203.0.113.7'' \<mapsto> \<lparr>windowStart = 0, count = 17\<rparr>]
     = (\<lparr>allowed = True, remaining = 2, resetIn = None\<rparr>,
        [''203.0.113.7'' \<mapsto> \<lparr>windowStart = 0, count = 18\<rparr>])
   \<and> map remaining (fst (checkRateLimit_seq ''203.0.113.7'' [7000, 8000, 9000]
        [''203.0.113.7'' \<mapsto> \<lparr>windowStart = 0, count = 17\<rparr>])) = [2, 1, 0]
   \<and> map remaining (fst (checkRateLimit_seq ''203.0.113.7'' [5000, 7000, 8000, 9000] Map.empty))
        = [19, 18, 17, 16]
   \<and> checkRateLimit_sl 7000 ''203.0.113.7'' [''203.0.113.7'' \<mapsto> \<lparr>start = 0, count_sl = 17\<rparr>]
     = (True, [''203.0.113.7'' \<mapsto> \<lparr>start = 0, count_sl = 18\<rparr>])
   \<and> checkRateLimit_sl_seq ''203.0.113.7'' [7000, 8000, 9000]
        [''203.0.113.7'' \<mapsto> \<lparr>start = 0, count_sl = 17\<rparr>]
     = ([True, True, True], [''203.0.113.7'' \<mapsto> \<lparr>start = 0, count_sl = 20\<rparr>])"
proof -
  note a = checkRateLimit_allows_under_limit
    [of "[''203.0.113.7'' \<mapsto> \<lparr>windowStart = 0, count = 17\<rparr>]" "''203.0.113.7''"
        "\<lparr>windowStart = 0, count = 17\<rparr>" 7000 "[7000, 8000, 9000]" 5000
        "[''203.0.113.7'' \<mapsto> \<lparr>start = 0, count_sl = 17\<rparr>]" "''203.0.113.7''"
        "\<lparr>start = 0, count_sl = 17\<rparr>"]
  note b = checkRateLimit_allows_under_limit
    [of Map.empty "''203.0.113.7''" "\<lparr>windowStart = 0, count = 17\<rparr>" 7000 "[7000, 8000, 9000]" 5000
        Map.empty "''203.0.113.7''" "\<lparr>start = 0, count_sl = 17\<rparr>"]
  show ?thesis
    using a b
    by (simp add: RATE_LIMIT_def RATE_WINDOW_def RATE_LIMIT_sl_def RATE_WINDOW_sl_def
        del: checkRateLimit_seq.simps checkRateLimit_sl_seq.simps)
qed

text \<open>
  Claim C3. When the key has no record, or the clock reading minus the record's window
  start exceeds the window's duration, the check stores a record with window start = now
  and count = 1 and returns \<^verbatim>\<open>allowed\<close> true with \<^verbatim>\<open>remaining\<close> = limit - 1; so a key
  that was at its limit is allowed again once the duration has elapsed. The serverless
  variant stores the same record and answers \<^verbatim>\<open>true\<close>.
\<close>

theorem checkRateLimit_opens_window:
  "(m key = None \<or> (\<exists>r. m key = Some r \<and> t - windowStart r > RATE_WINDOW * 1000) \<longrightarrow>
      checkRateLimit t key m =
        (\<lparr>allowed = True, remaining = RATE_LIMIT - 1, resetIn = None\<rparr>,
         m(key \<mapsto> \<lparr>windowStart = t, count = 1\<rparr>)))
   \<and> (ms ip = None \<or> (\<exists>r. ms ip = Some r \<and> t - start r > RATE_WINDOW_sl) \<longrightarrow>
      checkRateLimit_sl t ip ms = (True, ms(ip \<mapsto> \<lparr>start = t, count_sl = 1\<rparr>)))"
  using checkRateLimit_fresh[of m key t] checkRateLimit_sl_fresh[of ms ip t] by blast

theorem checkRateLimit_opens_window_witness:
  "checkRateLimit 1000 ''203.0.113.7'' Map.empty
     = (\<lparr>allowed = True, remaining = 19, resetIn = None\<rparr>,
        [''203.0.113.7'' \<mapsto> \<lparr>windowStart = 1000, count = 1\<rparr>])
   \<and> checkRateLimit 3600001 ''203.0.113.7'' [''203.0.113.7'' \<mapsto> \<lparr>windowStart = 0, count = 20\<rparr>]
     = (\<lparr>allowed = True, remaining = 19, resetIn = None\<rparr>,
        [''203.0.113.7'' \<mapsto> \<lparr>windowStart = 3600001, count = 1\<rparr>])
   \<and> checkRateLimit_sl 3600001 ''203.0.113.7'' [''203.0.113.7'' \<mapsto> \<lparr>start = 0, count_sl = 100\<rparr>]
     = (True, [''203.0.113.7'' \<mapsto> \<lparr>start = 3600001, count_sl = 1\<rparr>])"
proof -
  note a = checkRateLimit_opens_window
    [of Map.empty "''203.0.113.7''" 1000 Map.empty "''203.0.113.7''"]
  note b = checkRateLimit_opens_window
    [of "[''203.0.113.7'' \<mapsto> \<lparr>windowStart = 0, count = 20\<rparr>]" "''203.0.113.7''" 3600001
        "[''203.0.113.7'' \<mapsto> \<lparr>start = 0, count_sl = 100\<rparr>]" "''203.0.113.7''"]
  show ?thesis
    using a b by (simp add: RATE_LIMIT_def RATE_WINDOW_def RATE_WINDOW_sl_def)
qed

text \<open>
  Claim C9. In every state of the rate-limit map that calls of the check can produce from
  the empty map, each stored record has a count from 1 to the limit; the handler changes
  the map through the check alone, so its invocations keep the map among these states.
  The same holds of the serverless variant.
\<close>

theorem reachable_count_bounds:
  "(reachable m \<and> m key = Some r \<longrightarrow> 1 \<le> count r \<and> count r \<le> RATE_LIMIT)
   \<and> (reachable m \<longrightarrow> reachable (store (handler e req m)))
   \<and> (reachable_sl ms \<and> ms ip = Some rs \<longrightarrow> 1 \<le> count_sl rs \<and> count_sl rs \<le> RATE_LIMIT_sl)
   \<and> (reachable_sl ms \<longrightarrow> reachable_sl (store (handler_sl e req' ms)))"
proof (intro conjI impI; (elim conjE)?)
  assume "reachable m" "m key = Some r"
  then show "1 \<le> count r" "count r \<le> RATE_LIMIT"
    using reachable_count by blast+
next
  assume "reachable m"
  then show "reachable (store (handler e req m))"
    using handler_store[of e req m] reachable.check[of m "date_now e" "getRateLimitKey req"]
    by auto
next
  assume "reachable_sl ms" "ms ip = Some rs"
  then show "1 \<le> count_sl rs" "count_sl rs \<le> RATE_LIMIT_sl"
    using reachable_sl_count by blast+
next
  assume "reachable_sl ms"
  then show "reachable_sl (store (handler_sl e req' ms))"
    using handler_sl_store[of e req' ms] reachable_sl.check_sl[of ms "date_now e" "client_ip req'"]
    by auto
qed

theorem reachable_count_bounds_witness:
  "reachable [''203.0.113.7'' \<mapsto> \<lparr>windowStart = 0, count = 2\<rparr>]
   \<and> (1::int) \<le> 2 \<and> 2 \<le> RATE_LIMIT
   \<and> reachable (store (handler
        \<lparr>date_now = 1000, OPENAI_API_KEY = None, fetch = (\<lambda>c. Rejects ''down'')\<rparr>
        \<lparr>req_method = ''POST'', req_headers = Map.empty, req_json = None\<rparr>
        [''203.0.113.7'' \<mapsto> \<lparr>windowStart = 0, count = 2\<rparr>]))
   \<and> reachable_sl [''203.0.113.7'' \<mapsto> \<lparr>start = 0, count_sl = 2\<rparr>]
   \<and> 2 \<le> RATE_LIMIT_sl
   \<and> reachable_sl (store (handler_sl
        \<lparr>date_now = 1000, OPENAI_API_KEY = None, fetch = (\<lambda>c. Rejects ''down'')\<rparr>
        \<lparr>method_sl = ''POST'', headers_sl = Map.empty, body_sl = None\<rparr>
        [''203.0.113.7'' \<mapsto> \<lparr>start = 0, count_sl = 2\<rparr>]))"
proof -
  have "reachable (snd (checkRateLimit 0 ''203.0.113.7'' (snd (checkRateLimit 0 ''203.0.113.7'' Map.empty))))"
    by (intro reachable.intros)
  then have r: "reachable [''203.0.113.7'' \<mapsto> \<lparr>windowStart = 0, count = 2\<rparr>]"
    by (simp add: checkRateLimit_def RATE_LIMIT_def RATE_WINDOW_def)
  have "reachable_sl (snd (checkRateLimit_sl 0 ''203.0.113.7'' (snd (checkRateLimit_sl 0 ''203.0.113.7'' Map.empty))))"
    by (intro reachable_sl.intros)
  then have rs: "reachable_sl [''203.0.113.7'' \<mapsto> \<lparr>start = 0, count_sl = 2\<rparr>]"
    by (simp add: checkRateLimit_sl_def RATE_LIMIT_sl_def RATE_WINDOW_sl_def)
  show ?thesis
    using r rs reachable_count_bounds
      [of "[''203.0.113.7'' \<mapsto> \<lparr>windowStart = 0, count = 2\<rparr>]" "''203.0.113.7''"
          "\<lparr>windowStart = 0, count = 2\<rparr>"
          "\<lparr>date_now = 1000, OPENAI_API_KEY = None, fetch = (\<lambda>c. Rejects ''down'')\<rparr>"
          "\<lparr>req_method = ''POST'', req_headers = Map.empty, req_json = None\<rparr>"
          "[''203.0.113.7'' \<mapsto> \<lparr>start = 0, count_sl = 2\<rparr>]" "''203.0.113.7''"
          "\<lparr>start = 0, count_sl = 2\<rparr>"
          "\<lparr>method_sl = ''POST'', headers_sl = Map.empty, body_sl = None\<rparr>"]
    by simp
qed

text \<open>
  Claim C10. A check that denies leaves the rate-limit map exactly as it was: no record
  is created and no count or window start changes, for the denied key or any other. So
  does the invocation of the handler that answers such a request.
\<close>

theorem denied_check_leaves_map:
  "(\<not> allowed (fst (checkRateLimit t key m)) \<longrightarrow> snd (checkRateLimit t key m) = m)
   \<and> (req_method req = ''POST''
        \<and> \<not> allowed (fst (checkRateLimit (date_now e) (getRateLimitKey req) m)) \<longrightarrow>
      store (handler e req m) = m)
   \<and> (\<not> fst (checkRateLimit_sl t ip ms) \<longrightarrow> snd (checkRateLimit_sl t ip ms) = ms)
   \<and> (method_sl req' = ''POST''
        \<and> \<not> fst (checkRateLimit_sl (date_now e) (client_ip req') ms) \<longrightarrow>
      store (handler_sl e req' ms) = ms)"
  using checkRateLimit_refused_unchanged[of t key m] handler_429[of req e m]
    checkRateLimit_sl_refused_unchanged[of t ip ms] handler_sl_429[of req' e ms]
  by simp

theorem denied_check_leaves_map_witness:
  "\<not> allowed (fst (checkRateLimit 1000 ''unknown'' [''unknown'' \<mapsto> \<lparr>windowStart = 0, count = 20\<rparr>]))
   \<and> snd (checkRateLimit 1000 ''unknown'' [''unknown'' \<mapsto> \<lparr>windowStart = 0, count = 20\<rparr>])
      = [''unknown'' \<mapsto> \<lparr>windowStart = 0, count = 20\<rparr>]
   \<and> store (handler \<lparr>date_now = 1000, OPENAI_API_KEY = Some ''sk-test'', fetch = (\<lambda>c. Rejects ''down'')\<rparr>
        \<lparr>req_method = ''POST'', req_headers = Map.empty, req_json = Some (JObj [])\<rparr>
        [''unknown'' \<mapsto> \<lparr>windowStart = 0, count = 20\<rparr>])
      = [''unknown'' \<mapsto> \<lparr>windowStart = 0, count = 20\<rparr>]
   \<and> \<not> fst (checkRateLimit_sl 1000 ''unknown'' [''unknown'' \<mapsto> \<lparr>start = 0, count_sl = 100\<rparr>])
   \<and> snd (checkRateLimit_sl 1000 ''unknown'' [''unknown'' \<mapsto> \<lparr>start = 0, count_sl = 100\<rparr>])
      = [''unknown'' \<mapsto> \<lparr>start = 0, count_sl = 100\<rparr>]
   \<and> store (handler_sl \<lparr>date_now = 1000, OPENAI_API_KEY = Some ''sk-test'', fetch = (\<lambda>c. Rejects ''down'')\<rparr>
        \<lparr>method_sl = ''POST'', headers_sl = Map.empty, body_sl = None\<rparr>
        [''unknown'' \<mapsto> \<lparr>start = 0, count_sl = 100\<rparr>])
      = [''unknown'' \<mapsto> \<lparr>start = 0, count_sl = 100\<rparr>]"
proof -
  have h: "\<not> allowed (fst (checkRateLimit 1000 ''unknown'' [''unknown'' \<mapsto> \<lparr>windowStart = 0, count = 20\<rparr>]))"
    "\<not> fst (checkRateLimit_sl 1000 ''unknown'' [''unknown'' \<mapsto> \<lparr>start = 0, count_sl = 100\<rparr>])"
    by (simp_all add: checkRateLimit_def checkRateLimit_sl_def RATE_LIMIT_def RATE_WINDOW_def
        RATE_LIMIT_sl_def RATE_WINDOW_sl_def)
  have k: "getRateLimitKey \<lparr>req_method = ''POST'', req_headers = Map.empty, req_json = Some (JObj [])\<rparr> = ''unknown''"
    "client_ip \<lparr>method_sl = ''POST'', headers_sl = Map.empty, body_sl = None\<rparr> = ''unknown''"
    by (simp_all add: getRateLimitKey_def client_ip_def trim_def split_comma_first_def is_space_def)
  show ?thesis
    using h denied_check_leaves_map
      [of 1000 "''unknown''" "[''unknown'' \<mapsto> \<lparr>windowStart = 0, count = 20\<rparr>]"
          "\<lparr>req_method = ''POST'', req_headers = Map.empty, req_json = Some (JObj [])\<rparr>"
          "\<lparr>date_now = 1000, OPENAI_API_KEY = Some ''sk-test'', fetch = (\<lambda>c. Rejects ''down'')\<rparr>"
          "''unknown''" "[''unknown'' \<mapsto> \<lparr>start = 0, count_sl = 100\<rparr>]"
          "\<lparr>method_sl = ''POST'', headers_sl = Map.empty, body_sl = None\<rparr>"]
    by (simp add: k)
qed

section \<open>The handlers: the claims\<close>

lemma handler_called:
  assumes "calls (handler e req m) = [c]"
  shows "handler e req m =
     \<lparr>result = Inr
        (case (case fetch e c of
                 Rejects reason \<Rightarrow> Inl (FetchError reason)
               | Resolves openaiRes \<Rightarrow>
                   reply (corsHeaders req)
                     (fst (checkRateLimit (date_now e) (getRateLimitKey req) m)) openaiRes) of
           Inl err \<Rightarrow>
             \<lparr>status = 502,
              headers = corsHeaders req @ [(''Content-Type'', ''application/json'')],
              body = Some (JObj [(''error'', JStr ''Failed to reach AI service'')])\<rparr>
         | Inr r \<Rightarrow> r),
      calls = [c], store = snd (checkRateLimit (date_now e) (getRateLimitKey req) m)\<rparr>"
proof -
  define rc where "rc = fst (checkRateLimit (date_now e) (getRateLimitKey req) m)"
  define m' where "m' = snd (checkRateLimit (date_now e) (getRateLimitKey req) m)"
  have chk: "checkRateLimit (date_now e) (getRateLimitKey req) m = (rc, m')"
    by (simp add: rc_def m'_def)
  from handler_calls_D[OF assms] obtain kvs msgs k ks where
    h: "req_method req = ''POST''" "allowed rc" "req_json req = Some (JObj kvs)"
       "map_of kvs ''messages'' = Some (JArr msgs)" "OPENAI_API_KEY e = Some (k # ks)"
    unfolding rc_def by auto
  note fw = handler_forward[OF h(1) chk h(2) h(3) h(4) h(5) refl]
  have "calls (handler e req m) = [c]" by (rule assms)
  then show ?thesis
    unfolding fw rc_def m'_def by simp
qed

lemma handler_sl_called:
  assumes "calls (handler_sl e req m) = [c]"
  shows "handler_sl e req m =
     \<lparr>result = Inr
        (case (case fetch e c of
                 Rejects reason \<Rightarrow> Inl (FetchError reason)
               | Resolves openaiRes \<Rightarrow> reply_sl openaiRes) of
           Inl err \<Rightarrow>
             \<lparr>status = 502, headers = corsHeaders_sl,
              body = Some (JObj [(''error'', JStr ''Failed to reach AI service'')])\<rparr>
         | Inr r \<Rightarrow> r),
      calls = [c], store = snd (checkRateLimit_sl (date_now e) (client_ip req) m)\<rparr>"
proof -
  define m' where "m' = snd (checkRateLimit_sl (date_now e) (client_ip req) m)"
  from handler_sl_calls_D[OF assms] obtain kvs msgs k ks where
    h: "method_sl req = ''POST''" "fst (checkRateLimit_sl (date_now e) (client_ip req) m)"
       "body_sl req = Some (JObj kvs)"
       "map_of kvs ''messages'' = Some (JArr msgs)" "OPENAI_API_KEY e = Some (k # ks)"
    by auto
  from h(2) have chk: "checkRateLimit_sl (date_now e) (client_ip req) m = (True, m')"
    unfolding m'_def by (cases "checkRateLimit_sl (date_now e) (client_ip req) m") simp
  note fw = handler_sl_forward[OF h(1) chk h(3) h(4) h(5) refl]
  have "calls (handler_sl e req m) = [c]" by (rule assms)
  then show ?thesis
    unfolding fw m'_def by simp
qed

lemmas evaluation =
  handler_def handler_sl_def Let_def checkRateLimit_def checkRateLimit_sl_def
  getRateLimitKey_def client_ip_def trim_def split_comma_first_def is_space_def
  corsHeaders_def corsHeaders_sl_def allowedOrigins_def startsWith_def
  try_block_def try_block_sl_def request_body_def reply_def reply_sl_def first_content_def
  bind_err_def get_prop_def get_prop_of_def get_prop_opt_def get_index0_def isArray_def
  truthy_def or_default_def nullish_default_def json_response_def new_Response_def
  RATE_LIMIT_def RATE_WINDOW_def RATE_LIMIT_sl_def RATE_WINDOW_sl_def ceil_div_def
  string_of_resetIn_def string_of_int_def string_of_nat.simps

text \<open>
  Claim C4, as the code has it. A POST request that the rate limiter admits, whose body is
  an object with an array \<^verbatim>\<open>messages\<close>, with the credential configured, leads to exactly
  one upstream call. Its body is written by \<^verbatim>\<open>JSON.stringify\<close>, which leaves every value as
  it is except a number that is not finite (what a literal such as \<^verbatim>\<open>1e400\<close> parses to),
  which it writes as \<^verbatim>\<open>null\<close>. What is written so: for \<^verbatim>\<open>messages\<close> the request's array;
  for \<^verbatim>\<open>model\<close> and \<^verbatim>\<open>max_tokens\<close> the request's values when these are truthy and the
  defaults otherwise, so a \<^verbatim>\<open>max_tokens\<close> of 0 (or an empty \<^verbatim>\<open>model\<close>) that is present gives
  the default as a missing one does; for \<^verbatim>\<open>temperature\<close> the request's value unless that
  is missing or \<^verbatim>\<open>null\<close>, so a temperature of 0 is kept. The serverless variant always
  sends its fixed model and has 2500 as the default of \<^verbatim>\<open>max_tokens\<close>.
\<close>

theorem upstream_call_body:
  "(req_method req = ''POST''
      \<and> allowed (fst (checkRateLimit (date_now e) (getRateLimitKey req) m))
      \<and> req_json req = Some (JObj kvs) \<and> map_of kvs ''messages'' = Some (JArr msgs)
      \<and> OPENAI_API_KEY e = Some (k # ks) \<longrightarrow>
    calls (handler e req m) =
      [\<lparr>url = ''https://api.openai.com/v1/chat/completions'', call_method = ''POST'',
        call_headers = [(''Content-Type'', ''application/json''),
                        (''Authorization'', ''Bearer '' @ k # ks)],
        call_body = JObj
          [(''model'', written
              (case map_of kvs ''model'' of
                 None \<Rightarrow> JStr ''gpt-4o-mini''
               | Some v \<Rightarrow> if truthy (Some v) then v else JStr ''gpt-4o-mini'')),
           (''messages'', written (JArr msgs)),
           (''max_tokens'', written
              (case map_of kvs ''max_tokens'' of
                 None \<Rightarrow> JNum 1500
               | Some v \<Rightarrow> if truthy (Some v) then v else JNum 1500)),
           (''temperature'', written
              (case map_of kvs ''temperature'' of
                 None \<Rightarrow> JNum 0.85
               | Some JNull \<Rightarrow> JNum 0.85
               | Some v \<Rightarrow> v))]\<rparr>])
   \<and> (method_sl req' = ''POST''
      \<and> fst (checkRateLimit_sl (date_now e) (client_ip req') ms)
      \<and> body_sl req' = Some (JObj kvs) \<and> map_of kvs ''messages'' = Some (JArr msgs)
      \<and> OPENAI_API_KEY e = Some (k # ks) \<longrightarrow>
    calls (handler_sl e req' ms) =
      [\<lparr>url = ''https://api.openai.com/v1/chat/completions'', call_method = ''POST'',
        call_headers = [(''Content-Type'', ''application/json''),
                        (''Authorization'', ''Bearer '' @ k # ks)],
        call_body = JObj
          [(''model'', JStr ''gpt-4o-mini''),
           (''messages'', written (JArr msgs)),
           (''max_tokens'', written
              (case map_of kvs ''max_tokens'' of
                 None \<Rightarrow> JNum 2500
               | Some v \<Rightarrow> if truthy (Some v) then v else JNum 2500)),
           (''temperature'', written
              (case map_of kvs ''temperature'' of
                 None \<Rightarrow> JNum 0.85
               | Some JNull \<Rightarrow> JNum 0.85
               | Some v \<Rightarrow> v))]\<rparr>])
   \<and> (all_finite w \<longrightarrow> written w = w)
   \<and> written JInfinity = JNull \<and> written JMinusInfinity = JNull
   \<and> truthy (Some (JNum x)) = (x \<noteq> 0) \<and> truthy (Some (JStr s)) = (s \<noteq> [])
   \<and> \<not> truthy (Some JNull) \<and> truthy (Some (JBool b)) = b
   \<and> truthy (Some JInfinity) \<and> truthy (Some JMinusInfinity)"
proof (intro conjI impI; (elim conjE)?)
  assume h: "req_method req = ''POST''"
    "allowed (fst (checkRateLimit (date_now e) (getRateLimitKey req) m))"
    "req_json req = Some (JObj kvs)" "map_of kvs ''messages'' = Some (JArr msgs)"
    "OPENAI_API_KEY e = Some (k # ks)"
  obtain rc m' where chk: "checkRateLimit (date_now e) (getRateLimitKey req) m = (rc, m')"
    by (cases "checkRateLimit (date_now e) (getRateLimitKey req) m")
  have al: "allowed rc" using h(2) chk by simp
  show "calls (handler e req m) =
      [\<lparr>url = ''https://api.openai.com/v1/chat/completions'', call_method = ''POST'',
        call_headers = [(''Content-Type'', ''application/json''),
                        (''Authorization'', ''Bearer '' @ k # ks)],
        call_body = JObj
          [(''model'', written
              (case map_of kvs ''model'' of
                 None \<Rightarrow> JStr ''gpt-4o-mini''
               | Some v \<Rightarrow> if truthy (Some v) then v else JStr ''gpt-4o-mini'')),
           (''messages'', written (JArr msgs)),
           (''max_tokens'', written
              (case map_of kvs ''max_tokens'' of
                 None \<Rightarrow> JNum 1500
               | Some v \<Rightarrow> if truthy (Some v) then v else JNum 1500)),
           (''temperature'', written
              (case map_of kvs ''temperature'' of
                 None \<Rightarrow> JNum 0.85
               | Some JNull \<Rightarrow> JNum 0.85
               | Some v \<Rightarrow> v))]\<rparr>]"
    unfolding handler_forward[OF h(1) chk al h(3) h(4) h(5) refl]
    by (simp add: or_default_def nullish_default_def split: option.splits json.splits)
next
  assume h: "method_sl req' = ''POST''"
    "fst (checkRateLimit_sl (date_now e) (client_ip req') ms)"
    "body_sl req' = Some (JObj kvs)" "map_of kvs ''messages'' = Some (JArr msgs)"
    "OPENAI_API_KEY e = Some (k # ks)"
  obtain m' where chk: "checkRateLimit_sl (date_now e) (client_ip req') ms = (True, m')"
    using h(2) by (cases "checkRateLimit_sl (date_now e) (client_ip req') ms") simp
  show "calls (handler_sl e req' ms) =
      [\<lparr>url = ''https://api.openai.com/v1/chat/completions'', call_method = ''POST'',
        call_headers = [(''Content-Type'', ''application/json''),
                        (''Authorization'', ''Bearer '' @ k # ks)],
        call_body = JObj
          [(''model'', JStr ''gpt-4o-mini''),
           (''messages'', written (JArr msgs)),
           (''max_tokens'', written
              (case map_of kvs ''max_tokens'' of
                 None \<Rightarrow> JNum 2500
               | Some v \<Rightarrow> if truthy (Some v) then v else JNum 2500)),
           (''temperature'', written
              (case map_of kvs ''temperature'' of
                 None \<Rightarrow> JNum 0.85
               | Some JNull \<Rightarrow> JNum 0.85
               | Some v \<Rightarrow> v))]\<rparr>]"
    unfolding handler_sl_forward[OF h(1) chk h(3) h(4) h(5) refl]
    by (simp add: or_default_def nullish_default_def split: option.splits json.splits)
next
  show "written w = w" if "all_finite w"
    using that by (rule written_finite)
qed (simp_all add: truthy_def)

theorem request_values_not_forwarded:
  "map call_body (calls (handler
      \<lparr>date_now = 1000, OPENAI_API_KEY = Some ''sk-test'', fetch = (\<lambda>c. Rejects ''down'')\<rparr>
      \<lparr>req_method = ''POST'', req_headers = Map.empty,
        req_json = Some (JObj [(''model'', JStr []), (''messages'', JArr []),
                               (''max_tokens'', JNum 0), (''temperature'', JNull)])\<rparr>
      Map.empty))
   = [JObj [(''model'', JStr ''gpt-4o-mini''), (''messages'', JArr []),
            (''max_tokens'', JNum 1500), (''temperature'', JNum 0.85)]]
   \<and> map call_body (calls (handler
      \<lparr>date_now = 1000, OPENAI_API_KEY = Some ''sk-test'', fetch = (\<lambda>c. Rejects ''down'')\<rparr>
      \<lparr>req_method = ''POST'', req_headers = Map.empty,
        req_json = Some (JObj [(''messages'', JArr [JObj [(''content'', JInfinity)]]),
                               (''max_tokens'', JInfinity), (''temperature'', JNum 0)])\<rparr>
      Map.empty))
   = [JObj [(''model'', JStr ''gpt-4o-mini''),
            (''messages'', JArr [JObj [(''content'', JNull)]]),
            (''max_tokens'', JNull), (''temperature'', JNum 0)]]
   \<and> map call_body (calls (handler_sl
      \<lparr>date_now = 1000, OPENAI_API_KEY = Some ''sk-test'', fetch = (\<lambda>c. Rejects ''down'')\<rparr>
      \<lparr>method_sl = ''POST'', headers_sl = Map.empty,
        body_sl = Some (JObj [(''model'', JStr ''gpt-4o''), (''messages'', JArr [])])\<rparr>
      Map.empty))
   = [JObj [(''model'', JStr ''gpt-4o-mini''), (''messages'', JArr []),
            (''max_tokens'', JNum 2500), (''temperature'', JNum 0.85)]]"
  by (simp add: evaluation)

text \<open>
  Claim C5. When the upstream call that the handler makes is rejected, the response is
  502 with the body \<^verbatim>\<open>{error: "Failed to reach AI service"}\<close> whatever the reason of the
  rejection was, in both variants.
\<close>

theorem unreachable_upstream_502:
  "(calls (handler e req m) = [c] \<and> fetch e c = Rejects reason \<longrightarrow>
      result (handler e req m) = Inr
        \<lparr>status = 502,
         headers = corsHeaders req @ [(''Content-Type'', ''application/json'')],
         body = Some (JObj [(''error'', JStr ''Failed to reach AI service'')])\<rparr>)
   \<and> (calls (handler_sl e req' ms) = [c] \<and> fetch e c = Rejects reason \<longrightarrow>
      result (handler_sl e req' ms) = Inr
        \<lparr>status = 502, headers = corsHeaders_sl,
         body = Some (JObj [(''error'', JStr ''Failed to reach AI service'')])\<rparr>)"
proof (intro conjI impI; (elim conjE)?)
  assume "calls (handler e req m) = [c]" "fetch e c = Rejects reason"
  then show "result (handler e req m) = Inr
        \<lparr>status = 502,
         headers = corsHeaders req @ [(''Content-Type'', ''application/json'')],
         body = Some (JObj [(''error'', JStr ''Failed to reach AI service'')])\<rparr>"
    using handler_called[of e req m c] by simp
next
  assume "calls (handler_sl e req' ms) = [c]" "fetch e c = Rejects reason"
  then show "result (handler_sl e req' ms) = Inr
        \<lparr>status = 502, headers = corsHeaders_sl,
         body = Some (JObj [(''error'', JStr ''Failed to reach AI service'')])\<rparr>"
    using handler_sl_called[of e req' ms c] by simp
qed

text \<open>
  Claim C6, as the code has it. The rate limiter comes before the validation. A POST
  request that the rate limiter admits and whose body parses to a value other than
  \<^verbatim>\<open>null\<close> (in the serverless variant: any body, also none) gets 400 with the body
  \<^verbatim>\<open>{error: "messages array required"}\<close> when \<^verbatim>\<open>messages\<close> is missing or not an array,
  whatever else the body holds, whatever the credential and the upstream; no upstream
  call is made.
\<close>

theorem messages_required_400:
  "(req_method req = ''POST''
      \<and> allowed (fst (checkRateLimit (date_now e) (getRateLimitKey req) m))
      \<and> req_json req = Some b \<and> b \<noteq> JNull
      \<and> \<not> isArray (get_prop_opt (Some b) ''messages'') \<longrightarrow>
    result (handler e req m) = Inr
      \<lparr>status = 400,
       headers = corsHeaders req @ [(''Content-Type'', ''application/json'')],
       body = Some (JObj [(''error'', JStr ''messages array required'')])\<rparr>
    \<and> calls (handler e req m) = [])
   \<and> (method_sl req' = ''POST''
      \<and> fst (checkRateLimit_sl (date_now e) (client_ip req') ms)
      \<and> \<not> isArray (get_prop_opt (body_sl req') ''messages'') \<longrightarrow>
    result (handler_sl e req' ms) = Inr
      \<lparr>status = 400, headers = corsHeaders_sl,
       body = Some (JObj [(''error'', JStr ''messages array required'')])\<rparr>
    \<and> calls (handler_sl e req' ms) = [])"
  using handler_400_messages[of req e m b] handler_sl_400[of req' e ms] by simp

theorem rate_limited_before_validation:
  "req_method \<lparr>req_method = ''POST'', req_headers = Map.empty, req_json = Some (JObj [])\<rparr> = ''POST''
   \<and> \<not> isArray (get_prop_opt (Some (JObj [])) ''messages'')
   \<and> result (handler
        \<lparr>date_now = 1000, OPENAI_API_KEY = Some ''sk-test'', fetch = (\<lambda>c. Rejects ''down'')\<rparr>
        \<lparr>req_method = ''POST'', req_headers = Map.empty, req_json = Some (JObj [])\<rparr>
        [''unknown'' \<mapsto> \<lparr>windowStart = 0, count = 20\<rparr>])
     = Inr \<lparr>status = 429,
        headers =
          [(''Access-Control-Allow-Origin'', ''https://www.propertyfinder.ae''),
           (''Access-Control-Allow-Methods'', ''POST, OPTIONS''),
           (''Access-Control-Allow-Headers'', ''Content-Type''),
           (''Access-Control-Max-Age'', ''86400''),
           (''Content-Type'', ''application/json''),
           (''Retry-After'', ''3599'')],
        body = Some (JObj [(''error'', JStr ''Rate limited. Try again in 3599s.''),
                           (''resetIn'', JNum 3599)])\<rparr>"
  by (simp add: handler_def Let_def checkRateLimit_def getRateLimitKey_def RATE_LIMIT_def
      RATE_WINDOW_def ceil_div_def json_response_def string_of_resetIn_def string_of_int_def
      string_of_nat.simps corsHeaders_def allowedOrigins_def startsWith_def isArray_def
      get_prop_opt_def)

text \<open>
  Claim C7, at requests where the code does not do what the claim says. The upstream
  completes with status 500 and the body \<^verbatim>\<open>null\<close>: reading \<^verbatim>\<open>err.error\<close> throws inside the
  \<^verbatim>\<open>try\<close> block, and both variants answer 502, not 500. The upstream completes with
  status 304 and an error message: in the edge variant \<^verbatim>\<open>new Response\<close> refuses a body
  with that status and throws, and the answer is 502, not 304.
\<close>

theorem upstream_error_answered_502:
  "result (handler
      \<lparr>date_now = 1000, OPENAI_API_KEY = Some ''sk-test'',
        fetch = (\<lambda>c. Resolves \<lparr>ok = False, res_status = 500, res_json = Some JNull\<rparr>)\<rparr>
      \<lparr>req_method = ''POST'', req_headers = Map.empty,
        req_json = Some (JObj [(''messages'', JArr [JStr ''hi''])])\<rparr>
      Map.empty)
     = Inr \<lparr>status = 502,
       headers =
         [(''Access-Control-Allow-Origin'', ''https://www.propertyfinder.ae''),
          (''Access-Control-Allow-Methods'', ''POST, OPTIONS''),
          (''Access-Control-Allow-Headers'', ''Content-Type''),
          (''Access-Control-Max-Age'', ''86400''),
          (''Content-Type'', ''application/json'')],
       body = Some (JObj [(''error'', JStr ''Failed to reach AI service'')])\<rparr>
   \<and> result (handler
      \<lparr>date_now = 1000, OPENAI_API_KEY = Some ''sk-test'',
        fetch = (\<lambda>c. Resolves \<lparr>ok = False, res_status = 304,
          res_json = Some (JObj [(''error'', JObj [(''message'', JStr ''not modified'')])])\<rparr>)\<rparr>
      \<lparr>req_method = ''POST'', req_headers = Map.empty,
        req_json = Some (JObj [(''messages'', JArr [JStr ''hi''])])\<rparr>
      Map.empty)
     = Inr \<lparr>status = 502,
       headers =
         [(''Access-Control-Allow-Origin'', ''https://www.propertyfinder.ae''),
          (''Access-Control-Allow-Methods'', ''POST, OPTIONS''),
          (''Access-Control-Allow-Headers'', ''Content-Type''),
          (''Access-Control-Max-Age'', ''86400''),
          (''Content-Type'', ''application/json'')],
       body = Some (JObj [(''error'', JStr ''Failed to reach AI service'')])\<rparr>
   \<and> result (handler_sl
      \<lparr>date_now = 1000, OPENAI_API_KEY = Some ''sk-test'',
        fetch = (\<lambda>c. Resolves \<lparr>ok = False, res_status = 500, res_json = Some JNull\<rparr>)\<rparr>
      \<lparr>method_sl = ''POST'', headers_sl = Map.empty,
        body_sl = Some (JObj [(''messages'', JArr [JStr ''hi''])])\<rparr>
      Map.empty)
     = Inr \<lparr>status = 502,
       headers =
         [(''Access-Control-Allow-Origin'', ''*''),
          (''Access-Control-Allow-Methods'', ''POST, OPTIONS''),
          (''Access-Control-Allow-Headers'', ''Content-Type'')],
       body = Some (JObj [(''error'', JStr ''Failed to reach AI service'')])\<rparr>"
  by (simp add: evaluation)

text \<open>
  Everywhere else the code does what that claim says. When the upstream call completes
  with a status that is not a success and that a response with a body can carry (200 to
  599 other than 204, 205 and 304; any status in the serverless variant), and with a body
  other than \<^verbatim>\<open>null\<close>, the response carries the upstream's status; its message is the
  \<^verbatim>\<open>error.message\<close> of the upstream's body when that is truthy and the generic message
  otherwise, as \<^verbatim>\<open>JSON.stringify\<close> writes it. Every other class of error has its fixed
  status: 405, 429, 400, 400, 500 and 502.
\<close>

lemma upstream_error_status:
  "(calls (handler e req m) = [c] \<and> fetch e c = Resolves res \<and> \<not> ok res
        \<and> res_json res \<noteq> Some JNull
        \<and> 200 \<le> res_status res \<and> res_status res \<le> 599
        \<and> res_status res \<notin> {204, 205, 304} \<longrightarrow>
      result (handler e req m) = Inr
        \<lparr>status = res_status res,
         headers = corsHeaders req @ [(''Content-Type'', ''application/json'')],
         body = Some (JObj [(''error'', written
           (if truthy (get_prop_opt (get_prop_opt (res_json res) ''error'') ''message'')
            then the (get_prop_opt (get_prop_opt (res_json res) ''error'') ''message'')
            else JStr (''OpenAI error: '' @ string_of_int (res_status res))))])\<rparr>)
   \<and> (req_method req \<noteq> ''OPTIONS'' \<and> req_method req \<noteq> ''POST'' \<longrightarrow>
        map_sum id status (result (handler e req m)) = Inr 405)
   \<and> (req_method req = ''POST''
        \<and> \<not> allowed (fst (checkRateLimit (date_now e) (getRateLimitKey req) m)) \<longrightarrow>
        map_sum id status (result (handler e req m)) = Inr 429)
   \<and> (req_method req = ''POST''
        \<and> allowed (fst (checkRateLimit (date_now e) (getRateLimitKey req) m))
        \<and> req_json req = None \<longrightarrow>
        map_sum id status (result (handler e req m)) = Inr 400)
   \<and> (req_method req = ''POST''
        \<and> allowed (fst (checkRateLimit (date_now e) (getRateLimitKey req) m))
        \<and> req_json req = Some b \<and> b \<noteq> JNull
        \<and> \<not> isArray (get_prop_opt (Some b) ''messages'') \<longrightarrow>
        map_sum id status (result (handler e req m)) = Inr 400)
   \<and> (req_method req = ''POST''
        \<and> allowed (fst (checkRateLimit (date_now e) (getRateLimitKey req) m))
        \<and> req_json req = Some b \<and> isArray (get_prop_opt (Some b) ''messages'')
        \<and> (OPENAI_API_KEY e = None \<or> OPENAI_API_KEY e = Some []) \<longrightarrow>
        map_sum id status (result (handler e req m)) = Inr 500)
   \<and> (calls (handler e req m) = [c] \<and> fetch e c = Rejects reason \<longrightarrow>
        map_sum id status (result (handler e req m)) = Inr 502)
   \<and> (calls (handler_sl e req' ms) = [c] \<and> fetch e c = Resolves res \<and> \<not> ok res
        \<and> res_json res \<noteq> Some JNull \<longrightarrow>
      result (handler_sl e req' ms) = Inr
        \<lparr>status = res_status res, headers = corsHeaders_sl,
         body = Some (JObj [(''error'', written
           (if truthy (get_prop_opt (get_prop_opt (res_json res) ''error'') ''message'')
            then the (get_prop_opt (get_prop_opt (res_json res) ''error'') ''message'')
            else JStr ''OpenAI error''))])\<rparr>)
   \<and> (method_sl req' \<noteq> ''OPTIONS'' \<and> method_sl req' \<noteq> ''POST'' \<longrightarrow>
        map_sum id status (result (handler_sl e req' ms)) = Inr 405)
   \<and> (method_sl req' = ''POST''
        \<and> \<not> fst (checkRateLimit_sl (date_now e) (client_ip req') ms) \<longrightarrow>
        map_sum id status (result (handler_sl e req' ms)) = Inr 429)
   \<and> (method_sl req' = ''POST''
        \<and> fst (checkRateLimit_sl (date_now e) (client_ip req') ms)
        \<and> \<not> isArray (get_prop_opt (body_sl req') ''messages'') \<longrightarrow>
        map_sum id status (result (handler_sl e req' ms)) = Inr 400)
   \<and> (method_sl req' = ''POST''
        \<and> fst (checkRateLimit_sl (date_now e) (client_ip req') ms)
        \<and> isArray (get_prop_opt (body_sl req') ''messages'')
        \<and> (OPENAI_API_KEY e = None \<or> OPENAI_API_KEY e = Some []) \<longrightarrow>
        map_sum id status (result (handler_sl e req' ms)) = Inr 500)
   \<and> (calls (handler_sl e req' ms) = [c] \<and> fetch e c = Rejects reason \<longrightarrow>
        map_sum id status (result (handler_sl e req' ms)) = Inr 502)"
proof (intro conjI impI; (elim conjE)?)
  have or_if: "or_default x d = (if truthy x then the x else d)" for x d
    by (simp add: or_default_def truthy_def split: option.splits)
  let ?rc = "fst (checkRateLimit (date_now e) (getRateLimitKey req) m)"
  show "result (handler e req m) = Inr
        \<lparr>status = res_status res,
         headers = corsHeaders req @ [(''Content-Type'', ''application/json'')],
         body = Some (JObj [(''error'', written
           (if truthy (get_prop_opt (get_prop_opt (res_json res) ''error'') ''message'')
            then the (get_prop_opt (get_prop_opt (res_json res) ''error'') ''message'')
            else JStr (''OpenAI error: '' @ string_of_int (res_status res))))])\<rparr>"
    if "calls (handler e req m) = [c]" "fetch e c = Resolves res" "\<not> ok res"
      "res_json res \<noteq> Some JNull" "200 \<le> res_status res" "res_status res \<le> 599"
      "res_status res \<notin> {204, 205, 304}"
    unfolding handler_called[OF that(1)]
    using that(2) reply_not_ok[OF that(3,4,5,6,7), of "corsHeaders req" ?rc]
    by (simp add: or_if)
  show "result (handler_sl e req' ms) = Inr
        \<lparr>status = res_status res, headers = corsHeaders_sl,
         body = Some (JObj [(''error'', written
           (if truthy (get_prop_opt (get_prop_opt (res_json res) ''error'') ''message'')
            then the (get_prop_opt (get_prop_opt (res_json res) ''error'') ''message'')
            else JStr ''OpenAI error''))])\<rparr>"
    if "calls (handler_sl e req' ms) = [c]" "fetch e c = Resolves res" "\<not> ok res"
      "res_json res \<noteq> Some JNull"
    unfolding handler_sl_called[OF that(1)]
    using that(2) reply_sl_not_ok[OF that(3,4)]
    by (simp add: or_if)
  show "map_sum id status (result (handler e req m)) = Inr 405"
    if "req_method req \<noteq> ''OPTIONS''" "req_method req \<noteq> ''POST''"
    unfolding handler_405[OF that] by simp
  show "map_sum id status (result (handler e req m)) = Inr 429"
    if "req_method req = ''POST''" "\<not> allowed ?rc"
    using handler_429[OF that] by simp
  show "map_sum id status (result (handler e req m)) = Inr 400"
    if "req_method req = ''POST''" "allowed ?rc" "req_json req = None"
    unfolding handler_400_json[OF that] by simp
  show "map_sum id status (result (handler e req m)) = Inr 400"
    if "req_method req = ''POST''" "allowed ?rc" "req_json req = Some b" "b \<noteq> JNull"
      "\<not> isArray (get_prop_opt (Some b) ''messages'')"
    unfolding handler_400_messages[OF that] by simp
  show "map_sum id status (result (handler e req m)) = Inr 500"
    if "req_method req = ''POST''" "allowed ?rc" "req_json req = Some b"
      "isArray (get_prop_opt (Some b) ''messages'')"
      "OPENAI_API_KEY e = None \<or> OPENAI_API_KEY e = Some []"
    unfolding handler_500[OF that] by simp
  show "map_sum id status (result (handler e req m)) = Inr 502"
    if "calls (handler e req m) = [c]" "fetch e c = Rejects reason"
    unfolding handler_called[OF that(1)] using that(2) by simp
  show "map_sum id status (result (handler_sl e req' ms)) = Inr 405"
    if "method_sl req' \<noteq> ''OPTIONS''" "method_sl req' \<noteq> ''POST''"
    unfolding handler_sl_405[OF that] by simp
  show "map_sum id status (result (handler_sl e req' ms)) = Inr 429"
    if "method_sl req' = ''POST''" "\<not> fst (checkRateLimit_sl (date_now e) (client_ip req') ms)"
    unfolding handler_sl_429[OF that] by simp
  show "map_sum id status (result (handler_sl e req' ms)) = Inr 400"
    if "method_sl req' = ''POST''" "fst (checkRateLimit_sl (date_now e) (client_ip req') ms)"
      "\<not> isArray (get_prop_opt (body_sl req') ''messages'')"
    unfolding handler_sl_400[OF that] by simp
  show "map_sum id status (result (handler_sl e req' ms)) = Inr 500"
    if "method_sl req' = ''POST''" "fst (checkRateLimit_sl (date_now e) (client_ip req') ms)"
      "isArray (get_prop_opt (body_sl req') ''messages'')"
      "OPENAI_API_KEY e = None \<or> OPENAI_API_KEY e = Some []"
    unfolding handler_sl_500[OF that] by simp
  show "map_sum id status (result (handler_sl e req' ms)) = Inr 502"
    if "calls (handler_sl e req' ms) = [c]" "fetch e c = Rejects reason"
    unfolding handler_sl_called[OF that(1)] using that(2) by simp
qed

text \<open>
  Claim C8, as the code has it. When the upstream call completes with a success status,
  the response is 200 with \<^verbatim>\<open>content\<close> = \<^verbatim>\<open>data.choices[0].message.content\<close> of the
  upstream's reply, as \<^verbatim>\<open>JSON.stringify\<close> writes it (unchanged, but for a number that is
  not finite, written \<^verbatim>\<open>null\<close>; left out of the body when it is undefined) and, in the
  edge variant, \<^verbatim>\<open>remaining\<close> as the rate limiter returned it, provided the reply parses
  as JSON and that expression can be read, as it can when \<^verbatim>\<open>choices\<close> is an array whose
  first element is an object with an object \<^verbatim>\<open>message\<close>. When the reply does not parse
  or the expression throws, the response is the 502 of the \<^verbatim>\<open>catch\<close>.
\<close>

theorem upstream_success_200:
  "(calls (handler e req m) = [c] \<and> fetch e c = Resolves res \<and> ok res \<longrightarrow>
      (res_json res = Some data \<and> first_content data = Inr content \<longrightarrow>
        result (handler e req m) = Inr
          \<lparr>status = 200,
           headers = corsHeaders req @ [(''Content-Type'', ''application/json'')],
           body = Some (JObj
             ((case content of None \<Rightarrow> [] | Some v \<Rightarrow> [(''content'', written v)])
              @ [(''remaining'', JNum (of_int (remaining
                    (fst (checkRateLimit (date_now e) (getRateLimitKey req) m)))))]))\<rparr>)
      \<and> (res_json res = None \<or> (res_json res = Some data \<and> first_content data = Inl err) \<longrightarrow>
        result (handler e req m) = Inr
          \<lparr>status = 502,
           headers = corsHeaders req @ [(''Content-Type'', ''application/json'')],
           body = Some (JObj [(''error'', JStr ''Failed to reach AI service'')])\<rparr>))
   \<and> (calls (handler_sl e req' ms) = [c] \<and> fetch e c = Resolves res \<and> ok res \<longrightarrow>
      (res_json res = Some data \<and> first_content data = Inr content \<longrightarrow>
        result (handler_sl e req' ms) = Inr
          \<lparr>status = 200, headers = corsHeaders_sl,
           body = Some (JObj (case content of None \<Rightarrow> [] | Some v \<Rightarrow> [(''content'', written v)]))\<rparr>)
      \<and> (res_json res = None \<or> (res_json res = Some data \<and> first_content data = Inl err) \<longrightarrow>
        result (handler_sl e req' ms) = Inr
          \<lparr>status = 502, headers = corsHeaders_sl,
           body = Some (JObj [(''error'', JStr ''Failed to reach AI service'')])\<rparr>))
   \<and> (map_of kvs ''choices'' = Some (JArr (JObj ckvs # others))
        \<and> map_of ckvs ''message'' = Some (JObj mkvs) \<longrightarrow>
      first_content (JObj kvs) = Inr (map_of mkvs ''content''))
   \<and> (all_finite w \<longrightarrow> written w = w)
   \<and> written JInfinity = JNull \<and> written JMinusInfinity = JNull"
proof (intro conjI impI; (elim conjE)?)
  let ?rc = "fst (checkRateLimit (date_now e) (getRateLimitKey req) m)"
  {
    assume a: "calls (handler e req m) = [c]" "fetch e c = Resolves res" "ok res"
    note h = handler_called[OF a(1)]
    show "result (handler e req m) = Inr
          \<lparr>status = 200,
           headers = corsHeaders req @ [(''Content-Type'', ''application/json'')],
           body = Some (JObj
             ((case content of None \<Rightarrow> [] | Some v \<Rightarrow> [(''content'', written v)])
              @ [(''remaining'', JNum (of_int (remaining ?rc)))]))\<rparr>"
      if "res_json res = Some data" "first_content data = Inr content"
      unfolding h using a(2) reply_ok[OF a(3) that, of "corsHeaders req" ?rc]
      by (cases content) simp_all
    show "result (handler e req m) = Inr
          \<lparr>status = 502,
           headers = corsHeaders req @ [(''Content-Type'', ''application/json'')],
           body = Some (JObj [(''error'', JStr ''Failed to reach AI service'')])\<rparr>"
      if "res_json res = None \<or> (res_json res = Some data \<and> first_content data = Inl err)"
    proof -
      from that have "res_json res = None \<or> (\<exists>data err. res_json res = Some data \<and> first_content data = Inl err)"
        by blast
      from reply_ok_malformed[OF a(3) this, of "corsHeaders req" ?rc]
      obtain err' where "reply (corsHeaders req) ?rc res = Inl err'" by blast
      then show ?thesis
        unfolding h using a(2) by simp
    qed
  }
  {
    assume a: "calls (handler_sl e req' ms) = [c]" "fetch e c = Resolves res" "ok res"
    note h = handler_sl_called[OF a(1)]
    show "result (handler_sl e req' ms) = Inr
          \<lparr>status = 200, headers = corsHeaders_sl,
           body = Some (JObj (case content of None \<Rightarrow> [] | Some v \<Rightarrow> [(''content'', written v)]))\<rparr>"
      if "res_json res = Some data" "first_content data = Inr content"
      unfolding h using a(2) reply_sl_ok[OF a(3) that]
      by (cases content) simp_all
    show "result (handler_sl e req' ms) = Inr
          \<lparr>status = 502, headers = corsHeaders_sl,
           body = Some (JObj [(''error'', JStr ''Failed to reach AI service'')])\<rparr>"
      if "res_json res = None \<or> (res_json res = Some data \<and> first_content data = Inl err)"
    proof -
      from that have "res_json res = None \<or> (\<exists>data err. res_json res = Some data \<and> first_content data = Inl err)"
        by blast
      from reply_sl_ok_malformed[OF a(3) this]
      obtain err' where "reply_sl res = Inl err'" by blast
      then show ?thesis
        unfolding h using a(2) by simp
    qed
  }
  show "first_content (JObj kvs) = Inr (map_of mkvs ''content'')"
    if "map_of kvs ''choices'' = Some (JArr (JObj ckvs # others))"
      "map_of ckvs ''message'' = Some (JObj mkvs)"
    using that by (rule first_content_completion)
  show "written w = w" if "all_finite w"
    using that by (rule written_finite)
qed simp_all

section \<open>The claims at concrete requests\<close>

theorem upstream_call_body_witness:
  "calls (handler
      \<lparr>date_now = 1000, OPENAI_API_KEY = Some ''sk-test'', fetch = (\<lambda>c. Rejects ''ECONNRESET'')\<rparr>
      \<lparr>req_method = ''POST'', req_headers = Map.empty,
        req_json = Some (JObj [(''model'', JStr ''gpt-4o''), (''messages'', JArr [JStr ''hi'']),
                               (''max_tokens'', JNum 0), (''temperature'', JNum 0)])\<rparr>
      Map.empty)
   = [\<lparr>url = ''https://api.openai.com/v1/chat/completions'', call_method = ''POST'',
       call_headers = [(''Content-Type'', ''application/json''),
                       (''Authorization'', ''Bearer sk-test'')],
       call_body = JObj [(''model'', JStr ''gpt-4o''), (''messages'', JArr [JStr ''hi'']),
                         (''max_tokens'', JNum 1500), (''temperature'', JNum 0)]\<rparr>]
   \<and> calls (handler_sl
      \<lparr>date_now = 1000, OPENAI_API_KEY = Some ''sk-test'', fetch = (\<lambda>c. Rejects ''ECONNRESET'')\<rparr>
      \<lparr>method_sl = ''POST'', headers_sl = Map.empty,
        body_sl = Some (JObj [(''model'', JStr ''gpt-4o''), (''messages'', JArr [JStr ''hi'']),
                              (''max_tokens'', JNum 0), (''temperature'', JNum 0)])\<rparr>
      Map.empty)
   = [\<lparr>url = ''https://api.openai.com/v1/chat/completions'', call_method = ''POST'',
       call_headers = [(''Content-Type'', ''application/json''),
                       (''Authorization'', ''Bearer sk-test'')],
       call_body = JObj [(''model'', JStr ''gpt-4o-mini''), (''messages'', JArr [JStr ''hi'']),
                         (''max_tokens'', JNum 2500), (''temperature'', JNum 0)]\<rparr>]"
proof -
  let ?e = "\<lparr>date_now = 1000, OPENAI_API_KEY = Some ''sk-test'', fetch = (\<lambda>c. Rejects ''ECONNRESET'')\<rparr>"
  let ?kvs = "[(''model'', JStr ''gpt-4o''), (''messages'', JArr [JStr ''hi'']),
               (''max_tokens'', JNum 0), (''temperature'', JNum 0)]"
  let ?req = "\<lparr>req_method = ''POST'', req_headers = Map.empty, req_json = Some (JObj ?kvs)\<rparr>"
  let ?req' = "\<lparr>method_sl = ''POST'', headers_sl = Map.empty, body_sl = Some (JObj ?kvs)\<rparr>"
  have admitted: "allowed (fst (checkRateLimit (date_now ?e) (getRateLimitKey ?req) Map.empty))"
    "fst (checkRateLimit_sl (date_now ?e) (client_ip ?req') Map.empty)"
    by (simp_all add: checkRateLimit_def checkRateLimit_sl_def)
  show ?thesis
    using admitted
      upstream_call_body[of ?req ?e Map.empty ?kvs "[JStr ''hi'']" "CHR ''s''" "''k-test''"
        ?req' Map.empty "JArr [JStr ''hi'']"]
    by (simp add: truthy_def)
qed

theorem unreachable_upstream_502_witness:
  "calls (handler
      \<lparr>date_now = 1000, OPENAI_API_KEY = Some ''sk-test'', fetch = (\<lambda>c. Rejects ''ECONNRESET'')\<rparr>
      \<lparr>req_method = ''POST'', req_headers = Map.empty,
        req_json = Some (JObj [(''messages'', JArr [JStr ''hi''])])\<rparr>
      Map.empty)
   = [\<lparr>url = ''https://api.openai.com/v1/chat/completions'', call_method = ''POST'',
       call_headers = [(''Content-Type'', ''application/json''),
                       (''Authorization'', ''Bearer sk-test'')],
       call_body = JObj [(''model'', JStr ''gpt-4o-mini''), (''messages'', JArr [JStr ''hi'']),
                         (''max_tokens'', JNum 1500), (''temperature'', JNum 0.85)]\<rparr>]
   \<and> result (handler
      \<lparr>date_now = 1000, OPENAI_API_KEY = Some ''sk-test'', fetch = (\<lambda>c. Rejects ''ECONNRESET'')\<rparr>
      \<lparr>req_method = ''POST'', req_headers = Map.empty,
        req_json = Some (JObj [(''messages'', JArr [JStr ''hi''])])\<rparr>
      Map.empty)
   = Inr \<lparr>status = 502,
       headers =
         [(''Access-Control-Allow-Origin'', ''https://www.propertyfinder.ae''),
          (''Access-Control-Allow-Methods'', ''POST, OPTIONS''),
          (''Access-Control-Allow-Headers'', ''Content-Type''),
          (''Access-Control-Max-Age'', ''86400''),
          (''Content-Type'', ''application/json'')],
       body = Some (JObj [(''error'', JStr ''Failed to reach AI service'')])\<rparr>
   \<and> result (handler_sl
      \<lparr>date_now = 1000, OPENAI_API_KEY = Some ''sk-test'', fetch = (\<lambda>c. Rejects ''ECONNRESET'')\<rparr>
      \<lparr>method_sl = ''POST'', headers_sl = Map.empty,
        body_sl = Some (JObj [(''messages'', JArr [JStr ''hi''])])\<rparr>
      Map.empty)
   = Inr \<lparr>status = 502,
       headers =
         [(''Access-Control-Allow-Origin'', ''*''),
          (''Access-Control-Allow-Methods'', ''POST, OPTIONS''),
          (''Access-Control-Allow-Headers'', ''Content-Type'')],
       body = Some (JObj [(''error'', JStr ''Failed to reach AI service'')])\<rparr>"
proof -
  let ?e = "\<lparr>date_now = 1000, OPENAI_API_KEY = Some ''sk-test'', fetch = (\<lambda>c. Rejects ''ECONNRESET'')\<rparr>"
  let ?req = "\<lparr>req_method = ''POST'', req_headers = Map.empty,
        req_json = Some (JObj [(''messages'', JArr [JStr ''hi''])])\<rparr>"
  let ?req' = "\<lparr>method_sl = ''POST'', headers_sl = Map.empty,
        body_sl = Some (JObj [(''messages'', JArr [JStr ''hi''])])\<rparr>"
  let ?c = "\<lparr>url = ''https://api.openai.com/v1/chat/completions'', call_method = ''POST'',
       call_headers = [(''Content-Type'', ''application/json''),
                       (''Authorization'', ''Bearer sk-test'')],
       call_body = JObj [(''model'', JStr ''gpt-4o-mini''), (''messages'', JArr [JStr ''hi'']),
                         (''max_tokens'', JNum 1500), (''temperature'', JNum 0.85)]\<rparr>"
  let ?c' = "\<lparr>url = ''https://api.openai.com/v1/chat/completions'', call_method = ''POST'',
       call_headers = [(''Content-Type'', ''application/json''),
                       (''Authorization'', ''Bearer sk-test'')],
       call_body = JObj [(''model'', JStr ''gpt-4o-mini''), (''messages'', JArr [JStr ''hi'']),
                         (''max_tokens'', JNum 2500), (''temperature'', JNum 0.85)]\<rparr>"
  have made: "calls (handler ?e ?req Map.empty) = [?c]" "calls (handler_sl ?e ?req' Map.empty) = [?c']"
    by (simp_all add: evaluation)
  show ?thesis
    using made
      unreachable_upstream_502[of ?e ?req Map.empty ?c "''ECONNRESET''"]
      unreachable_upstream_502[of ?e _ _ ?c' "''ECONNRESET''" ?req' Map.empty]
    by (simp add: corsHeaders_def corsHeaders_sl_def allowedOrigins_def startsWith_def)
qed

theorem messages_required_400_witness:
  "result (handler
      \<lparr>date_now = 1000, OPENAI_API_KEY = None, fetch = (\<lambda>c. Rejects ''ECONNRESET'')\<rparr>
      \<lparr>req_method = ''POST'', req_headers = Map.empty,
        req_json = Some (JObj [(''messages'', JStr ''hello''), (''model'', JStr ''gpt-4o'')])\<rparr>
      Map.empty)
   = Inr \<lparr>status = 400,
       headers =
         [(''Access-Control-Allow-Origin'', ''https://www.propertyfinder.ae''),
          (''Access-Control-Allow-Methods'', ''POST, OPTIONS''),
          (''Access-Control-Allow-Headers'', ''Content-Type''),
          (''Access-Control-Max-Age'', ''86400''),
          (''Content-Type'', ''application/json'')],
       body = Some (JObj [(''error'', JStr ''messages array required'')])\<rparr>
   \<and> result (handler_sl
      \<lparr>date_now = 1000, OPENAI_API_KEY = None, fetch = (\<lambda>c. Rejects ''ECONNRESET'')\<rparr>
      \<lparr>method_sl = ''POST'', headers_sl = Map.empty, body_sl = Some (JObj [(''max_tokens'', JNum 5)])\<rparr>
      Map.empty)
   = Inr \<lparr>status = 400,
       headers =
         [(''Access-Control-Allow-Origin'', ''*''),
          (''Access-Control-Allow-Methods'', ''POST, OPTIONS''),
          (''Access-Control-Allow-Headers'', ''Content-Type'')],
       body = Some (JObj [(''error'', JStr ''messages array required'')])\<rparr>"
proof -
  let ?e = "\<lparr>date_now = 1000, OPENAI_API_KEY = None, fetch = (\<lambda>c. Rejects ''ECONNRESET'')\<rparr>"
  let ?b = "JObj [(''messages'', JStr ''hello''), (''model'', JStr ''gpt-4o'')]"
  let ?req = "\<lparr>req_method = ''POST'', req_headers = Map.empty, req_json = Some ?b\<rparr>"
  let ?req' = "\<lparr>method_sl = ''POST'', headers_sl = Map.empty,
                 body_sl = Some (JObj [(''max_tokens'', JNum 5)])\<rparr>"
  have admitted: "allowed (fst (checkRateLimit (date_now ?e) (getRateLimitKey ?req) Map.empty))"
    "fst (checkRateLimit_sl (date_now ?e) (client_ip ?req') Map.empty)"
    by (simp_all add: checkRateLimit_def checkRateLimit_sl_def)
  have invalid: "\<not> isArray (get_prop_opt (Some ?b) ''messages'')"
    "\<not> isArray (get_prop_opt (body_sl ?req') ''messages'')"
    by (simp_all add: isArray_def get_prop_opt_def)
  show ?thesis
    using admitted invalid messages_required_400[of ?req ?e Map.empty ?b ?req' Map.empty]
    by (simp add: corsHeaders_def corsHeaders_sl_def allowedOrigins_def startsWith_def)
qed

theorem upstream_success_200_witness:
  "result (handler
      \<lparr>date_now = 1000, OPENAI_API_KEY = Some ''sk-test'',
        fetch = (\<lambda>c. Resolves \<lparr>ok = True, res_status = 200,
          res_json = Some (JObj [(''choices'',
            JArr [JObj [(''message'', JObj [(''content'', JStr ''hello'')])]])])\<rparr>)\<rparr>
      \<lparr>req_method = ''POST'', req_headers = Map.empty,
        req_json = Some (JObj [(''messages'', JArr [JStr ''hi''])])\<rparr>
      Map.empty)
   = Inr \<lparr>status = 200,
       headers =
         [(''Access-Control-Allow-Origin'', ''https://www.propertyfinder.ae''),
          (''Access-Control-Allow-Methods'', ''POST, OPTIONS''),
          (''Access-Control-Allow-Headers'', ''Content-Type''),
          (''Access-Control-Max-Age'', ''86400''),
          (''Content-Type'', ''application/json'')],
       body = Some (JObj [(''content'', JStr ''hello''), (''remaining'', JNum 19)])\<rparr>
   \<and> result (handler_sl
      \<lparr>date_now = 1000, OPENAI_API_KEY = Some ''sk-test'',
        fetch = (\<lambda>c. Resolves \<lparr>ok = True, res_status = 200,
          res_json = Some (JObj [(''choices'',
            JArr [JObj [(''message'', JObj [(''content'', JStr ''hello'')])]])])\<rparr>)\<rparr>
      \<lparr>method_sl = ''POST'', headers_sl = Map.empty,
        body_sl = Some (JObj [(''messages'', JArr [JStr ''hi''])])\<rparr>
      Map.empty)
   = Inr \<lparr>status = 200,
       headers =
         [(''Access-Control-Allow-Origin'', ''*''),
          (''Access-Control-Allow-Methods'', ''POST, OPTIONS''),
          (''Access-Control-Allow-Headers'', ''Content-Type'')],
       body = Some (JObj [(''content'', JStr ''hello'')])\<rparr>
   \<and> result (handler
      \<lparr>date_now = 1000, OPENAI_API_KEY = Some ''sk-test'',
        fetch = (\<lambda>c. Resolves \<lparr>ok = True, res_status = 200, res_json = None\<rparr>)\<rparr>
      \<lparr>req_method = ''POST'', req_headers = Map.empty,
        req_json = Some (JObj [(''messages'', JArr [JStr ''hi''])])\<rparr>
      Map.empty)
   = Inr \<lparr>status = 502,
       headers =
         [(''Access-Control-Allow-Origin'', ''https://www.propertyfinder.ae''),
          (''Access-Control-Allow-Methods'', ''POST, OPTIONS''),
          (''Access-Control-Allow-Headers'', ''Content-Type''),
          (''Access-Control-Max-Age'', ''86400''),
          (''Content-Type'', ''application/json'')],
       body = Some (JObj [(''error'', JStr ''Failed to reach AI service'')])\<rparr>"
proof -
  let ?kvs = "[(''choices'', JArr [JObj [(''message'', JObj [(''content'', JStr ''hello'')])]])]"
  let ?up = "\<lparr>ok = True, res_status = 200, res_json = Some (JObj ?kvs)\<rparr>"
  let ?reply = "\<lparr>ok = True, res_status = 200, res_json = None\<rparr>"
  let ?e = "\<lparr>date_now = 1000, OPENAI_API_KEY = Some ''sk-test'', fetch = (\<lambda>c. Resolves ?up)\<rparr>"
  let ?other = "\<lparr>date_now = 1000, OPENAI_API_KEY = Some ''sk-test'', fetch = (\<lambda>c. Resolves ?reply)\<rparr>"
  let ?b = "JObj [(''messages'', JArr [JStr ''hi''])]"
  let ?req = "\<lparr>req_method = ''POST'', req_headers = Map.empty, req_json = Some ?b\<rparr>"
  let ?req' = "\<lparr>method_sl = ''POST'', headers_sl = Map.empty, body_sl = Some ?b\<rparr>"
  let ?c = "\<lparr>url = ''https://api.openai.com/v1/chat/completions'', call_method = ''POST'',
       call_headers = [(''Content-Type'', ''application/json''),
                       (''Authorization'', ''Bearer sk-test'')],
       call_body = JObj [(''model'', JStr ''gpt-4o-mini''), (''messages'', JArr [JStr ''hi'']),
                         (''max_tokens'', JNum 1500), (''temperature'', JNum 0.85)]\<rparr>"
  let ?c' = "\<lparr>url = ''https://api.openai.com/v1/chat/completions'', call_method = ''POST'',
       call_headers = [(''Content-Type'', ''application/json''),
                       (''Authorization'', ''Bearer sk-test'')],
       call_body = JObj [(''model'', JStr ''gpt-4o-mini''), (''messages'', JArr [JStr ''hi'']),
                         (''max_tokens'', JNum 2500), (''temperature'', JNum 0.85)]\<rparr>"
  have made: "calls (handler ?e ?req Map.empty) = [?c]" "calls (handler ?other ?req Map.empty) = [?c]"
    "calls (handler_sl ?e ?req' Map.empty) = [?c']"
    by (simp_all add: evaluation)
  have rem: "remaining (fst (checkRateLimit (date_now ?e) (getRateLimitKey ?req) Map.empty)) = 19"
    by (simp add: checkRateLimit_def RATE_LIMIT_def)
  note t1 = upstream_success_200
    [of ?e ?req Map.empty ?c ?up "JObj ?kvs" "Some (JStr ''hello'')" TypeError ?req' Map.empty
        ?kvs "[(''message'', JObj [(''content'', JStr ''hello'')])]" "[]"
        "[(''content'', JStr ''hello'')]" "JStr ''hello''"]
  note t2 = upstream_success_200
    [of ?e _ _ ?c' ?up "JObj ?kvs" "Some (JStr ''hello'')" TypeError ?req' Map.empty
        ?kvs "[(''message'', JObj [(''content'', JStr ''hello'')])]" "[]"
        "[(''content'', JStr ''hello'')]" "JStr ''hello''"]
  note t3 = upstream_success_200
    [of ?other ?req Map.empty ?c ?reply "JObj ?kvs" "Some (JStr ''hello'')" TypeError ?req' Map.empty
        ?kvs "[(''message'', JObj [(''content'', JStr ''hello'')])]" "[]"
        "[(''content'', JStr ''hello'')]" "JStr ''hello''"]
  have fc: "first_content (JObj ?kvs) = Inr (Some (JStr ''hello''))"
    using t1 by simp
  have s1: "result (handler ?e ?req Map.empty) = Inr \<lparr>status = 200,
       headers = corsHeaders ?req @ [(''Content-Type'', ''application/json'')],
       body = Some (JObj [(''content'', JStr ''hello''), (''remaining'', JNum 19)])\<rparr>"
    using t1 made(1) fc rem by simp
  have s2: "result (handler_sl ?e ?req' Map.empty) = Inr \<lparr>status = 200,
       headers = corsHeaders_sl, body = Some (JObj [(''content'', JStr ''hello'')])\<rparr>"
    using t2 made(3) fc by simp
  have s3: "result (handler ?other ?req Map.empty) = Inr \<lparr>status = 502,
       headers = corsHeaders ?req @ [(''Content-Type'', ''application/json'')],
       body = Some (JObj [(''error'', JStr ''Failed to reach AI service'')])\<rparr>"
    using t3 made(2) by simp
  show ?thesis
    using s1 s2 s3
    by (simp add: corsHeaders_def corsHeaders_sl_def allowedOrigins_def startsWith_def)
qed

theorem empty_choices_gives_502:
  "fetch \<lparr>date_now = 1000, OPENAI_API_KEY = Some ''sk-test'',
        fetch = (\<lambda>c. Resolves \<lparr>ok = True, res_status = 200,
          res_json = Some (JObj [(''choices'', JArr [])])\<rparr>)\<rparr>
      \<lparr>url = ''https://api.openai.com/v1/chat/completions'', call_method = ''POST'',
       call_headers = [(''Content-Type'', ''application/json''),
                       (''Authorization'', ''Bearer sk-test'')],
       call_body = JObj [(''model'', JStr ''gpt-4o-mini''), (''messages'', JArr [JStr ''hi'']),
                         (''max_tokens'', JNum 1500), (''temperature'', JNum 0.85)]\<rparr>
     = Resolves \<lparr>ok = True, res_status = 200, res_json = Some (JObj [(''choices'', JArr [])])\<rparr>
   \<and> calls (handler
      \<lparr>date_now = 1000, OPENAI_API_KEY = Some ''sk-test'',
        fetch = (\<lambda>c. Resolves \<lparr>ok = True, res_status = 200,
          res_json = Some (JObj [(''choices'', JArr [])])\<rparr>)\<rparr>
      \<lparr>req_method = ''POST'', req_headers = Map.empty,
        req_json = Some (JObj [(''messages'', JArr [JStr ''hi''])])\<rparr>
      Map.empty)
     = [\<lparr>url = ''https://api.openai.com/v1/chat/completions'', call_method = ''POST'',
       call_headers = [(''Content-Type'', ''application/json''),
                       (''Authorization'', ''Bearer sk-test'')],
       call_body = JObj [(''model'', JStr ''gpt-4o-mini''), (''messages'', JArr [JStr ''hi'']),
                         (''max_tokens'', JNum 1500), (''temperature'', JNum 0.85)]\<rparr>]
   \<and> result (handler
      \<lparr>date_now = 1000, OPENAI_API_KEY = Some ''sk-test'',
        fetch = (\<lambda>c. Resolves \<lparr>ok = True, res_status = 200,
          res_json = Some (JObj [(''choices'', JArr [])])\<rparr>)\<rparr>
      \<lparr>req_method = ''POST'', req_headers = Map.empty,
        req_json = Some (JObj [(''messages'', JArr [JStr ''hi''])])\<rparr>
      Map.empty)
     = Inr \<lparr>status = 502,
       headers =
         [(''Access-Control-Allow-Origin'', ''https://www.propertyfinder.ae''),
          (''Access-Control-Allow-Methods'', ''POST, OPTIONS''),
          (''Access-Control-Allow-Headers'', ''Content-Type''),
          (''Access-Control-Max-Age'', ''86400''),
          (''Content-Type'', ''application/json'')],
       body = Some (JObj [(''error'', JStr ''Failed to reach AI service'')])\<rparr>"
  by (simp add: evaluation)

end
